theory Spec2Isabelle
  imports Complex_Main
begin

section \<open>Python values, errors and strings\<close>

text \<open>
  The incident-analysis service is Python. Every exception the modelled code can raise is
  a constructor of \<open>error\<close>, and a function that can raise returns \<open>error + 'a\<close>
  with \<open>Inl\<close> for the exception. Strings are the UTF-8 bytes of the Python text, so an
  accented letter of the French templates is two characters.
\<close>

datatype error =
    IndexError | KeyError | ValueError | ZeroDivisionError | TypeError | AttributeError
  | JSONDecodeError | OSError | EEException | APIError

abbreviation e_acute :: string where "e_acute \<equiv> [CHR 0xC3, CHR 0xA9]"
abbreviation e_grave :: string where "e_grave \<equiv> [CHR 0xC3, CHR 0xA8]"
abbreviation e_circ :: string where "e_circ \<equiv> [CHR 0xC3, CHR 0xAA]"
abbreviation a_grave :: string where "a_grave \<equiv> [CHR 0xC3, CHR 0xA0]"
abbreviation a_circ :: string where "a_circ \<equiv> [CHR 0xC3, CHR 0xA2]"
abbreviation u_circ :: string where "u_circ \<equiv> [CHR 0xC3, CHR 0xBB]"
abbreviation o_circ :: string where "o_circ \<equiv> [CHR 0xC3, CHR 0xB4]"
abbreviation apos :: string where "apos \<equiv> [CHR 0x27]"
abbreviation nl :: string where "nl \<equiv> [CHR 0x0A]"

text \<open>Sequencing of calls that can raise: the first exception ends the computation.\<close>

definition and_then :: "error + 'a \<Rightarrow> ('a \<Rightarrow> error + 'b) \<Rightarrow> error + 'b" where
  "and_then r f = (case r of Inl e \<Rightarrow> Inl e | Inr v \<Rightarrow> f v)"

text \<open>
  A float64 cell: NaN (a missing sample) or a number, kept as the real it denotes.
  Comparing two cells compares these reals, and a comparison with NaN is false, as in
  IEEE arithmetic. Arithmetic on cells rounds: the one place where the code computes with
  them, \<open>Series.mean()\<close>, is pandas' and is a parameter of the functions that call it.
\<close>

datatype pyfloat = NaN | Val real

definition py_gt :: "pyfloat \<Rightarrow> pyfloat \<Rightarrow> bool" where
  "py_gt a b = (case (a, b) of (Val x, Val y) \<Rightarrow> y < x | _ \<Rightarrow> False)"

definition py_le :: "pyfloat \<Rightarrow> pyfloat \<Rightarrow> bool" where
  "py_le a b = (case (a, b) of (Val x, Val y) \<Rightarrow> x \<le> y | _ \<Rightarrow> False)"

text \<open>Python's \<open>a / b\<close> on integers: true division, raising on a zero divisor.\<close>

definition py_truediv :: "int \<Rightarrow> int \<Rightarrow> error + real" where
  "py_truediv a b = (if b = 0 then Inl ZeroDivisionError else Inr (real_of_int a / real_of_int b))"

section \<open>Data frames\<close>

text \<open>
  A pandas data frame is an ordered list of named, typed columns. A datetime64 column
  holds midnight timestamps, kept as the number of days since 1970-01-01. An object
  column holds strings, with \<open>None\<close> for a missing cell.
\<close>

datatype column =
    DateCol "int list" | FloatCol "pyfloat list" | IntCol "int list"
  | ObjCol "string option list"

type_synonym frame = "(string \<times> column) list"

definition getitem :: "frame \<Rightarrow> string \<Rightarrow> error + column" where
  \<comment> \<open>\<open>df[name]\<close>\<close>
  "getitem df name = (case map_of df name of None \<Rightarrow> Inl KeyError | Some c \<Rightarrow> Inr c)"

definition setitem :: "('k \<times> 'v) list \<Rightarrow> 'k \<Rightarrow> 'v \<Rightarrow> ('k \<times> 'v) list" where
  \<comment> \<open>\<open>df[name] = c\<close>, and \<open>d[k] = v\<close> on a dict: an existing entry keeps its place and
      takes the new value, a new one is appended\<close>
  "setitem df name c =
     (if name \<in> fst ` set df then map (\<lambda>(k, v). if k = name then (k, c) else (k, v)) df
      else df @ [(name, c)])"

definition numeric :: "column \<Rightarrow> error + pyfloat list" where
  \<comment> \<open>the values of a column as floats, for \<open>mean\<close> and comparisons\<close>
  "numeric c =
     (case c of
        FloatCol xs \<Rightarrow> Inr xs
      | IntCol ns \<Rightarrow> Inr (map (\<lambda>n. Val (real_of_int n)) ns)
      | DateCol _ \<Rightarrow> Inl TypeError
      | ObjCol _ \<Rightarrow> Inl TypeError)"

definition exact_mean :: "pyfloat list \<Rightarrow> pyfloat" where
  \<comment> \<open>the mean without rounding: NaN cells are skipped, no number at all gives NaN.
      \<open>Series.mean()\<close> gives this value where the sum and the quotient are exact in
      float64, as for the series of the examples below\<close>
  "exact_mean xs =
     (let vs = concat (map (\<lambda>x. case x of NaN \<Rightarrow> [] | Val v \<Rightarrow> [v]) xs)
      in if vs = [] then NaN else Val (sum_list vs / real (length vs)))"

definition iloc :: "'a list \<Rightarrow> int \<Rightarrow> error + 'a" where
  \<comment> \<open>\<open>Series.iloc[i]\<close>: a negative position counts from the end\<close>
  "iloc xs i =
     (let k = (if i < 0 then int (length xs) + i else i)
      in if k < 0 \<or> int (length xs) \<le> k then Inl IndexError else Inr (xs ! nat k))"

section \<open>Narrative synthesis: \<open>generate_textual_analysis\<close>\<close>

text \<open>
  The f-string conversions \<open>{x:.2f}\<close> and \<open>{x:.1f}\<close> are Python's fixed-point
  formatting: the value is rounded to \<open>d\<close> decimals, ties to the even neighbour, the
  sign of a negative value is kept even when it rounds to zero, and NaN prints as
  \<open>nan\<close>.
\<close>

definition digit_char :: "nat \<Rightarrow> char" where
  "digit_char n = ''0123456789'' ! (n mod 10)"

fun nat_digits :: "nat \<Rightarrow> string" where
  "nat_digits n = (if n < 10 then [digit_char n] else nat_digits (n div 10) @ [digit_char n])"

declare nat_digits.simps [simp del]

primrec frac_digits :: "nat \<Rightarrow> nat \<Rightarrow> string" where
  "frac_digits 0 n = []"
| "frac_digits (Suc k) n = frac_digits k (n div 10) @ [digit_char n]"

definition round_half_even :: "real \<Rightarrow> int" where
  "round_half_even x =
     (let f = \<lfloor>x\<rfloor>; r = x - of_int f
      in if r < 1 / 2 then f else if 1 / 2 < r then f + 1 else if even f then f else f + 1)"

definition format_fixed :: "nat \<Rightarrow> pyfloat \<Rightarrow> string" where
  "format_fixed d v =
     (case v of
        NaN \<Rightarrow> ''nan''
      | Val x \<Rightarrow>
          (let n = nat (round_half_even (\<bar>x\<bar> * 10 ^ d))
           in (if x < 0 then ''-'' else []) @ nat_digits (n div 10 ^ d) @
              (if d = 0 then [] else ''.'' @ frac_digits d n)))"

definition index_trend :: "pyfloat list \<Rightarrow> error + string" where
  \<comment> \<open>lines 243 and 255: \<open>'augmentation' if s.iloc[-1] > s.iloc[0] else 'diminution'\<close>\<close>
  "index_trend xs =
     and_then (iloc xs (- 1)) (\<lambda>last_value.
     and_then (iloc xs 0) (\<lambda>first_value.
       Inr (if py_gt last_value first_value then ''augmentation'' else ''diminution'')))"

definition generally_good :: string where
  "generally_good = ''g'' @ e_acute @ ''n'' @ e_acute @ ''ralement bonne.'' @ nl"

definition moderate :: string where
  "moderate = ''mod'' @ e_acute @ ''r'' @ e_acute @ ''e.'' @ nl"

definition potentially_low :: string where
  "potentially_low =
     ''potentiellement faible ou une zone avec peu de v'' @ e_acute @ ''g'' @ e_acute @
     ''tation.'' @ nl"

definition significant_water :: string where
  "significant_water =
     ''la pr'' @ e_acute @ ''sence significative d'' @ apos @ ''eau dans la zone.'' @ nl"

definition relatively_dry :: string where
  "relatively_dry =
     ''une zone relativement s'' @ e_grave @ ''che ou avec peu d'' @ apos @
     ''eau de surface.'' @ nl"

definition ndvi_health :: "pyfloat \<Rightarrow> string" where
  \<comment> \<open>lines 246 to 251. The float literal \<open>0.3\<close> is the float64 next below 3/10, and
      no float64 lies between the two, so a float64 mean is above the one exactly when it
      is above the other; \<open>0.5\<close> and \<open>0\<close> are exact\<close>
  "ndvi_health avg_ndvi =
     (if py_gt avg_ndvi (Val 0.5) then generally_good
      else if py_gt avg_ndvi (Val 0.3) then moderate
      else potentially_low)"

definition ndwi_presence :: "pyfloat \<Rightarrow> string" where
  \<comment> \<open>lines 258 to 261\<close>
  "ndwi_presence avg_ndwi =
     (if py_gt avg_ndwi (Val 0) then significant_water else relatively_dry)"

definition ndvi_sentence :: "pyfloat \<Rightarrow> string \<Rightarrow> string" where
  \<comment> \<open>lines 244 and 245\<close>
  "ndvi_sentence avg_ndvi ndvi_trend =
     ''L'' @ apos @ ''indice de v'' @ e_acute @ ''g'' @ e_acute @
     ''tation (NDVI) moyen est de '' @ format_fixed 2 avg_ndvi @
     '', avec une tendance '' @ a_grave @ '' la '' @ ndvi_trend @
     '' sur la p'' @ e_acute @ ''riode analys'' @ e_acute @ ''e. '' @
     ''Cela indique une sant'' @ e_acute @ '' de la v'' @ e_acute @ ''g'' @ e_acute @
     ''tation ''"

definition ndvi_analysis ::
  "(pyfloat list \<Rightarrow> pyfloat) \<Rightarrow> frame \<Rightarrow> error + (string \<times> pyfloat \<times> string)" where
  \<comment> \<open>lines 241 to 251; returns the text added, \<open>avg_ndvi\<close> and \<open>ndvi_trend\<close>.
      \<open>mean\<close> is \<open>Series.mean()\<close> on the values of a column\<close>
  "ndvi_analysis mean ndvi_data =
     and_then (getitem ndvi_data ''NDVI'') (\<lambda>c.
     and_then (numeric c) (\<lambda>xs.
       let avg_ndvi = mean xs in
       and_then (index_trend xs) (\<lambda>ndvi_trend.
         Inr (ndvi_sentence avg_ndvi ndvi_trend @ ndvi_health avg_ndvi,
              avg_ndvi, ndvi_trend))))"

definition ndwi_sentence :: "pyfloat \<Rightarrow> string \<Rightarrow> string" where
  \<comment> \<open>lines 256 and 257\<close>
  "ndwi_sentence avg_ndwi ndwi_trend =
     nl @ ''L'' @ apos @ ''indice d'' @ apos @ ''eau (NDWI) moyen est de '' @
     format_fixed 2 avg_ndwi @
     '', avec une tendance '' @ a_grave @ '' la '' @ ndwi_trend @ ''. '' @
     ''Cela sugg'' @ e_grave @ ''re ''"

definition ndwi_analysis ::
  "(pyfloat list \<Rightarrow> pyfloat) \<Rightarrow> frame \<Rightarrow> error + (string \<times> pyfloat \<times> string)" where
  \<comment> \<open>lines 253 to 261; returns the text added, \<open>avg_ndwi\<close> and \<open>ndwi_trend\<close>\<close>
  "ndwi_analysis mean ndwi_data =
     and_then (getitem ndwi_data ''NDWI'') (\<lambda>c.
     and_then (numeric c) (\<lambda>xs.
       let avg_ndwi = mean xs in
       and_then (index_trend xs) (\<lambda>ndwi_trend.
         Inr (ndwi_sentence avg_ndwi ndwi_trend @ ndwi_presence avg_ndwi,
              avg_ndwi, ndwi_trend))))"

text \<open>
  The land-cover histogram is a Python dict from class name to pixel count: an association
  list in insertion order with distinct keys.
\<close>

type_synonym histogram = "(string \<times> int) list"

fun max_key :: "histogram \<Rightarrow> error + string" where
  \<comment> \<open>\<open>max(d, key=d.get)\<close>: the first key, in insertion order, with the largest value\<close>
  "max_key [] = Inl ValueError"
| "max_key (kv # rest) =
     Inr (fst (foldl (\<lambda>best x. if snd best < snd x then x else best) kv rest))"

definition dict_getitem :: "histogram \<Rightarrow> string \<Rightarrow> error + int" where
  \<comment> \<open>\<open>d[k]\<close>\<close>
  "dict_getitem d k = (case map_of d k of None \<Rightarrow> Inl KeyError | Some v \<Rightarrow> Inr v)"

definition cover_percent :: "histogram \<Rightarrow> string \<Rightarrow> error + pyfloat" where
  \<comment> \<open>\<open>d[k] / sum(d.values()) * 100\<close>\<close>
  "cover_percent d k =
     and_then (dict_getitem d k) (\<lambda>v.
     and_then (py_truediv v (sum_list (map snd d))) (\<lambda>q. Inr (Val (q * 100))))"

definition land_cover_analysis ::
  "histogram \<Rightarrow> error + string" where
  \<comment> \<open>lines 263 to 266\<close>
  "land_cover_analysis landcover_data =
     and_then (max_key landcover_data) (\<lambda>dominant_cover.
     and_then (cover_percent landcover_data dominant_cover) (\<lambda>p.
       Inr (nl @ ''La couverture terrestre dominante dans la zone est '' @ apos @
            dominant_cover @ apos @ '', '' @
            ''repr'' @ e_acute @ ''sentant '' @ format_fixed 1 p @
            ''% de la surface analys'' @ e_acute @ ''e.'' @ nl)))"

definition deforestation_analysis ::
  "histogram \<Rightarrow> string \<Rightarrow> error + string" where
  \<comment> \<open>lines 270 to 282\<close>
  "deforestation_analysis landcover_data ndvi_trend =
     (if ''Couverture arbor'' @ e_acute @ ''e'' \<in> fst ` set landcover_data then
        and_then (cover_percent landcover_data (''Couverture arbor'' @ e_acute @ ''e''))
          (\<lambda>tree_cover_percent.
            Inr (nl @ ''En ce qui concerne la d'' @ e_acute @ ''forestation, '' @
                 ''la zone pr'' @ e_acute @ ''sente actuellement '' @ format_fixed 1 tree_cover_percent @
                 ''% de couverture arbor'' @ e_acute @ ''e. '' @
                 (if ndvi_trend = ''diminution'' then
                    ''La tendance '' @ a_grave @
                    '' la baisse du NDVI pourrait indiquer une perte r'' @
                    e_acute @ ''cente de v'' @ e_acute @ ''g'' @ e_acute @ ''tation, '' @
                    ''potentiellement li'' @ e_acute @ ''e '' @ a_grave @ '' des activit'' @
                    e_acute @ ''s de d'' @ e_acute @ ''forestation.''
                  else
                    ''Malgr'' @ e_acute @ '' la pr'' @ e_acute @ ''occupation de d'' @ e_acute @
                    ''forestation, le NDVI ne montre pas de tendance '' @ a_grave @
                    '' la baisse, '' @
                    ''ce qui pourrait sugg'' @ e_acute @ ''rer que la d'' @ e_acute @
                    ''forestation n'' @ apos @ ''est pas active ou est compens'' @ e_acute @
                    ''e par la croissance ailleurs.'')))
      else
        Inr (nl @ ''En ce qui concerne la d'' @ e_acute @ ''forestation, '' @
             ''la zone ne semble pas avoir une couverture foresti'' @ e_grave @
             ''re significative actuellement. '' @
             ''Cela pourrait indiquer une d'' @ e_acute @ ''forestation pass'' @ e_acute @
             ''e ou une zone naturellement non bois'' @ e_acute @ ''e.''))"

definition water_pollution_analysis :: "pyfloat \<Rightarrow> string \<Rightarrow> string" where
  \<comment> \<open>lines 285 to 296\<close>
  "water_pollution_analysis avg_ndwi ndwi_trend =
     nl @ ''Concernant la pollution de l'' @ apos @ ''eau, '' @
     (if py_gt avg_ndwi (Val 0) then
        ''la pr'' @ e_acute @ ''sence d'' @ apos @ ''eau est confirm'' @ e_acute @
        ''e par l'' @ apos @ ''indice NDWI positif. '' @
        (if ndwi_trend = ''diminution'' then
           ''La tendance '' @ a_grave @
           '' la baisse du NDWI pourrait indiquer une r'' @ e_acute @
           ''duction des surfaces d'' @ apos @ ''eau, '' @
           ''potentiellement li'' @ e_acute @ ''e '' @ a_grave @ '' la pollution ou '' @
           a_grave @ '' d'' @ apos @ ''autres facteurs environnementaux.''
         else
           ''Le NDWI stable ou en augmentation sugg'' @ e_grave @ ''re que la quantit'' @
           e_acute @ '' d'' @ apos @ ''eau de surface n'' @ apos @ ''a pas diminu'' @
           e_acute @ ''. '' @
           ''Cependant, cela n'' @ apos @ ''exclut pas la possibilit'' @ e_acute @
           '' de pollution, qui n'' @ e_acute @
           ''cessiterait des analyses in situ pour '' @ e_circ @
           ''tre confirm'' @ e_acute @ ''e.'')
      else
        ''l'' @ apos @ ''indice NDWI faible sugg'' @ e_grave @ ''re peu d'' @ apos @
        ''eau de surface dans la zone. '' @
        ''La pollution de l'' @ apos @ ''eau pourrait concerner des sources d'' @ apos @
        ''eau souterraines ou des cours d'' @ apos @ ''eau temporaires non d'' @ e_acute @
        ''tect'' @ e_acute @ ''s par l'' @ apos @ ''analyse satellite.'')"

definition incident_specific_analysis ::
  "histogram \<Rightarrow> string \<Rightarrow> string \<Rightarrow> pyfloat \<Rightarrow> string \<Rightarrow>
   error + string" where
  \<comment> \<open>lines 268 to 296: the branch on \<open>incident_type\<close>\<close>
  "incident_specific_analysis landcover_data incident_type ndvi_trend avg_ndwi ndwi_trend =
     (if incident_type = ''D'' @ e_acute @ ''forestation'' then
        deforestation_analysis landcover_data ndvi_trend
      else if incident_type = ''Pollution de l'' @ apos @ ''eau'' then
        Inr (water_pollution_analysis avg_ndwi ndwi_trend)
      else Inr [])"

definition analysis_header :: "string \<Rightarrow> string" where
  \<comment> \<open>line 239\<close>
  "analysis_header incident_type =
     ''Analyse de l'' @ apos @ ''incident de type '' @ apos @ incident_type @
     apos @ '':'' @ nl @ nl"

definition generate_textual_analysis ::
  "(pyfloat list \<Rightarrow> pyfloat) \<Rightarrow> frame \<Rightarrow> frame \<Rightarrow> histogram \<Rightarrow> string \<Rightarrow> error + string" where
  \<comment> \<open>the first argument is \<open>Series.mean()\<close>; the others are the source's\<close>
  "generate_textual_analysis mean ndvi_data ndwi_data landcover_data incident_type =
     and_then (ndvi_analysis mean ndvi_data) (\<lambda>(ndvi_text, avg_ndvi, ndvi_trend).
     and_then (ndwi_analysis mean ndwi_data) (\<lambda>(ndwi_text, avg_ndwi, ndwi_trend).
     and_then (land_cover_analysis landcover_data) (\<lambda>cover_text.
     and_then (incident_specific_analysis landcover_data incident_type
                 ndvi_trend avg_ndwi ndwi_trend) (\<lambda>incident_text.
       Inr (analysis_header incident_type @
            ndvi_text @ ndwi_text @ cover_text @ incident_text)))))"

section \<open>Land-cover sampling: \<open>analyze_land_cover\<close>\<close>

text \<open>
  Earth Engine geometries: the point of interest and its 500 metre buffer. The remote
  calls are parameters of the model: each gives what \<open>getInfo()\<close> returns, or the
  exception it raises.
\<close>

datatype ee_geometry = Point real real | Buffer ee_geometry real

definition land_cover_types :: "(int \<times> string) list" where
  "land_cover_types =
     [(10, ''Couverture arbor'' @ e_acute @ ''e''), (20, ''Arbustes''), (30, ''Prairies''),
      (40, ''Terres cultiv'' @ e_acute @ ''es''), (50, ''Zones b'' @ a_circ @ ''ties''),
      (60, ''V'' @ e_acute @ ''g'' @ e_acute @ ''tation clairsem'' @ e_acute @ ''e/nue''),
      (70, ''Neige/Glace''), (80, ''Plans d'' @ apos @ ''eau permanents''),
      (90, ''Zones humides herbac'' @ e_acute @ ''es''), (95, ''Mangroves''),
      (100, ''Mousses/Lichens'')]"

fun digits_value :: "string \<Rightarrow> nat \<Rightarrow> nat option" where
  "digits_value [] acc = Some acc"
| "digits_value (c # cs) acc =
     (if c \<in> set ''0123456789''
      then digits_value cs (10 * acc + (of_char c - 48)) else None)"

definition py_int :: "string \<Rightarrow> error + int" where
  \<comment> \<open>\<open>int(k)\<close> on the decimal text of a class code: an optional sign, then digits.
      The other spellings Python reads (blanks around the number, underscores between
      digits) do not occur in histogram keys and are rejected here.\<close>
  "py_int s =
     (let (neg, ds) =
        (case s of
           c # cs \<Rightarrow> if c = CHR ''-'' then (True, cs) else if c = CHR ''+'' then (False, cs)
                     else (False, s)
         | [] \<Rightarrow> (False, s))
      in case (if ds = [] then None else digits_value ds 0) of
           None \<Rightarrow> Inl ValueError
         | Some n \<Rightarrow> Inr (if neg then - int n else int n))"

definition cover_name :: "int \<Rightarrow> string" where
  \<comment> \<open>\<open>land_cover_types.get(code, 'Inconnu')\<close>\<close>
  "cover_name code = (case map_of land_cover_types code of None \<Rightarrow> ''Inconnu'' | Some n \<Rightarrow> n)"

definition code_name :: "string \<times> int \<Rightarrow> string" where
  \<comment> \<open>the histogram key of one item of \<open>sampled_data\<close>\<close>
  "code_name kv = (case py_int (fst kv) of Inl e \<Rightarrow> [] | Inr code \<Rightarrow> cover_name code)"

fun remap_codes :: "(string \<times> int) list \<Rightarrow> histogram \<Rightarrow> error + histogram" where
  \<comment> \<open>the dict comprehension of line 141, one item of \<open>sampled_data\<close> after the other\<close>
  "remap_codes [] acc = Inr acc"
| "remap_codes ((k, v) # rest) acc =
     and_then (py_int k) (\<lambda>code. remap_codes rest (setitem acc (cover_name code) v))"

definition analyze_land_cover ::
  "(ee_geometry \<Rightarrow> error + (string \<times> int) list) \<Rightarrow> ee_geometry \<Rightarrow> error + histogram" where
  "analyze_land_cover sample_histogram buffered_point =
     and_then (sample_histogram buffered_point) (\<lambda>sampled_data. remap_codes sampled_data [])"

section \<open>Vegetation and water extraction: \<open>analyze_vegetation_and_water\<close>\<close>

text \<open>
  \<open>getRegion(point, scale=10).getInfo()\<close> gives a header row and then one row per scene:
  id, longitude, latitude, acquisition time in milliseconds and the band value, which is
  \<open>None\<close> where the pixel is masked. \<open>reduceRegion(...).getInfo()\<close> gives a dict from
  band name to the mean, \<open>None\<close> when there is no valid pixel.
\<close>

record feature =
  fid :: string
  longitude :: real
  latitude :: real
  time_start :: int
  band :: "real option"

type_synonym region = "string list \<times> feature list"

record ee_results =
  ndvi_region :: "error + region"
  ndwi_region :: "error + region"
  ndvi_reduce :: "error + (string \<times> real option) list"
  ndwi_reduce :: "error + (string \<times> real option) list"

type_synonym earth_engine = "ee_geometry \<Rightarrow> ee_geometry \<Rightarrow> int \<Rightarrow> int \<Rightarrow> ee_results"

definition feature_date :: "feature \<Rightarrow> int" where
  \<comment> \<open>\<open>ee.Date(feature[3]).format('YYYY-MM-dd')\<close>, read back by \<open>pd.to_datetime\<close>: the
      UTC day of the acquisition\<close>
  "feature_date f = time_start f div 86400000"

definition feature_value :: "feature \<Rightarrow> pyfloat" where
  \<comment> \<open>\<open>feature[4]\<close> as a float64 cell\<close>
  "feature_value f = (case band f of None \<Rightarrow> NaN | Some x \<Rightarrow> Val x)"

definition column_length :: "column \<Rightarrow> nat" where
  "column_length c =
     (case c of DateCol xs \<Rightarrow> length xs | FloatCol xs \<Rightarrow> length xs
      | IntCol xs \<Rightarrow> length xs | ObjCol xs \<Rightarrow> length xs)"

definition data_frame :: "(string \<times> column) list \<Rightarrow> error + frame" where
  \<comment> \<open>\<open>pd.DataFrame({...})\<close>: all columns must have the same length\<close>
  "data_frame cols =
     (if \<exists>c \<in> set cols. \<exists>c' \<in> set cols. column_length (snd c) \<noteq> column_length (snd c')
      then Inl ValueError else Inr cols)"

fun select_columns :: "frame \<Rightarrow> string list \<Rightarrow> error + frame" where
  \<comment> \<open>\<open>df[[name, ...]]\<close>: a new frame with these columns\<close>
  "select_columns df [] = Inr []"
| "select_columns df (n # ns) =
     and_then (getitem df n) (\<lambda>c.
     and_then (select_columns df ns) (\<lambda>rest. Inr ((n, c) # rest)))"

definition reduce_value :: "(string \<times> real option) list \<Rightarrow> string \<Rightarrow> error + real option" where
  \<comment> \<open>\<open>info[name]\<close>\<close>
  "reduce_value info name = (case map_of info name of None \<Rightarrow> Inl KeyError | Some v \<Rightarrow> Inr v)"

definition analyze_vegetation_and_water ::
  "earth_engine \<Rightarrow> ee_geometry \<Rightarrow> ee_geometry \<Rightarrow> int \<Rightarrow> int \<Rightarrow>
   error + (frame \<times> frame \<times> real option \<times> real option)" where
  "analyze_vegetation_and_water ee point buffered_point start_date end_date =
     (let r = ee point buffered_point start_date end_date in
      and_then (ndvi_region r) (\<lambda>ndvi_timeseries.
      and_then (ndwi_region r) (\<lambda>ndwi_timeseries.
      and_then (and_then (ndvi_reduce r) (\<lambda>info. reduce_value info ''NDVI'')) (\<lambda>ndvi_mean.
      and_then (and_then (ndwi_reduce r) (\<lambda>info. reduce_value info ''NDWI'')) (\<lambda>ndwi_mean.
        let dates = map feature_date (snd ndvi_timeseries);
            ndvi_values = map feature_value (snd ndvi_timeseries);
            ndwi_values = map feature_value (snd ndwi_timeseries)
        in
        and_then (data_frame [(''Date'', DateCol dates), (''NDVI'', FloatCol ndvi_values),
                              (''NDWI'', FloatCol ndwi_values)]) (\<lambda>df_ndvi.
        and_then (select_columns df_ndvi [''Date'', ''NDVI'']) (\<lambda>ndvi_data.
        and_then (select_columns df_ndvi [''Date'', ''NDWI'']) (\<lambda>ndwi_data.
          Inr (ndvi_data, ndwi_data, ndvi_mean, ndwi_mean)))))))))"


section \<open>Chart rendering\<close>

text \<open>
  Plotting, PNG encoding and base64 are matplotlib, seaborn and the standard library:
  each chart's drawing step is a parameter that gives the encoded image or the exception
  raised. What the functions do to their arguments before drawing is modelled here. A
  data frame is a mutable object, so a function that assigns columns returns the frame as
  the caller sees it afterwards, also when drawing raises.
\<close>

definition civil_from_days :: "int \<Rightarrow> int \<times> int \<times> int" where
  \<comment> \<open>year, month and day of a day count since 1970-01-01 (proleptic Gregorian)\<close>
  "civil_from_days n =
     (let z = n + 719468; era = z div 146097; doe = z mod 146097;
          yoe = (doe - doe div 1460 + doe div 36524 - doe div 146096) div 365;
          doy = doe - (365 * yoe + yoe div 4 - yoe div 100);
          mp = (5 * doy + 2) div 153;
          d = doy - (153 * mp + 2) div 5 + 1;
          m = (if mp < 10 then mp + 3 else mp - 9);
          y = yoe + era * 400
      in (if m \<le> 2 then y + 1 else y, m, d))"

definition dt_month :: "int \<Rightarrow> int" where
  "dt_month n = fst (snd (civil_from_days n))"

definition dt_day :: "int \<Rightarrow> int" where
  "dt_day n = snd (snd (civil_from_days n))"

definition mois_abbr_francais :: "(int \<times> string) list" where
  "mois_abbr_francais =
     [(1, ''Janv''), (2, ''F'' @ e_acute @ ''vr''), (3, ''Mars''), (4, ''Avril''), (5, ''Mai''),
      (6, ''Juin''), (7, ''Juil''), (8, ''Ao'' @ u_circ @ ''t''), (9, ''Sept''), (10, ''Oct''),
      (11, ''Nov''), (12, ''D'' @ e_acute @ ''c'')]"

definition generate_ndvi_ndwi_plot ::
  "(column \<Rightarrow> column \<Rightarrow> column \<Rightarrow> column \<Rightarrow> error + string) \<Rightarrow> frame \<Rightarrow> frame \<Rightarrow> error + string" where
  "generate_ndvi_ndwi_plot line_png ndvi_data ndwi_data =
     and_then (getitem ndvi_data ''Date'') (\<lambda>ndvi_dates.
     and_then (getitem ndvi_data ''NDVI'') (\<lambda>ndvi_values.
     and_then (getitem ndwi_data ''Date'') (\<lambda>ndwi_dates.
     and_then (getitem ndwi_data ''NDWI'') (\<lambda>ndwi_values.
       line_png ndvi_dates ndvi_values ndwi_dates ndwi_values))))"

definition generate_ndvi_heatmap ::
  "(frame \<Rightarrow> error + string) \<Rightarrow> frame \<Rightarrow> (error + string) \<times> frame" where
  \<comment> \<open>lines 177 to 183 assign three columns of \<open>ndvi_data\<close>; \<open>heatmap_png\<close> is the pivot
      table and the drawing of lines 185 to 198\<close>
  "generate_ndvi_heatmap heatmap_png ndvi_data =
     (case getitem ndvi_data ''Date'' of
        Inl e \<Rightarrow> (Inl e, ndvi_data)
      | Inr (DateCol dates) \<Rightarrow>
          (let with_num = setitem ndvi_data ''NumMois'' (IntCol (map dt_month dates));
               with_mois = setitem with_num ''Mois''
                 (ObjCol (map (\<lambda>d. map_of mois_abbr_francais (dt_month d)) dates));
               with_jour = setitem with_mois ''Jour'' (IntCol (map dt_day dates))
           in (heatmap_png with_jour, with_jour))
      | Inr _ \<Rightarrow> (Inl AttributeError, ndvi_data))"

definition generate_landcover_plot ::
  "(histogram \<Rightarrow> error + string) \<Rightarrow> histogram \<Rightarrow> error + string" where
  "generate_landcover_plot pie_png landcover_data = pie_png landcover_data"

section \<open>The pipeline: \<open>analyze_incident_zone\<close>\<close>

datatype level = INFO | WARNING | ERROR

type_synonym log = "(level \<times> string) list"

text \<open>
  What one request uses from outside the repository: pandas' mean, the date parser, the
  imagery and land-cover services and the drawing steps.
\<close>

record services =
  series_mean :: "pyfloat list \<Rightarrow> pyfloat"
  strptime :: "string \<Rightarrow> error + int"
  engine :: earth_engine
  sample_histogram :: "ee_geometry \<Rightarrow> error + (string \<times> int) list"
  line_png :: "column \<Rightarrow> column \<Rightarrow> column \<Rightarrow> column \<Rightarrow> error + string"
  heatmap_png :: "frame \<Rightarrow> error + string"
  pie_png :: "histogram \<Rightarrow> error + string"

record analysis_result =
  textual_analysis :: string
  ndvi_ndwi_plot :: string
  ndvi_heatmap :: string
  landcover_plot :: string
  raw_ndvi :: frame
  raw_ndwi :: frame
  raw_landcover :: histogram

definition incident_zone_report ::
  "services \<Rightarrow> ee_geometry \<Rightarrow> string \<Rightarrow> frame \<Rightarrow> frame \<Rightarrow> error + analysis_result" where
  \<comment> \<open>lines 49 to 72, from the two frames bound at line 48\<close>
  "incident_zone_report sv buffered_point incident_type ndvi_data ndwi_data =
     and_then (analyze_land_cover (sample_histogram sv) buffered_point) (\<lambda>landcover_data.
     and_then (generate_ndvi_ndwi_plot (line_png sv) ndvi_data ndwi_data) (\<lambda>lines.
       case generate_ndvi_heatmap (heatmap_png sv) ndvi_data of
         (Inl e, _) \<Rightarrow> Inl e
       | (Inr heatmap, ndvi_data') \<Rightarrow>
           and_then (generate_landcover_plot (pie_png sv) landcover_data) (\<lambda>pie.
           and_then (generate_textual_analysis (series_mean sv) ndvi_data' ndwi_data
                       landcover_data incident_type)
             (\<lambda>narrative.
               Inr \<lparr>textual_analysis = narrative, ndvi_ndwi_plot = lines,
                    ndvi_heatmap = heatmap, landcover_plot = pie,
                    raw_ndvi = ndvi_data', raw_ndwi = ndwi_data,
                    raw_landcover = landcover_data\<rparr>))))"

datatype pyobj = Frame frame | Number "real option"

definition unpack_two :: "'a list \<Rightarrow> error + 'a \<times> 'a" where
  \<comment> \<open>\<open>a, b = t\<close>: the tuple must have exactly two items\<close>
  "unpack_two t = (case t of [a, b] \<Rightarrow> Inr (a, b) | _ \<Rightarrow> Inl ValueError)"

definition analyze_incident_zone ::
  "services \<Rightarrow> real \<Rightarrow> real \<Rightarrow> string \<Rightarrow> string \<Rightarrow> string \<Rightarrow> string \<Rightarrow> log \<Rightarrow>
   (error + analysis_result) \<times> log" where
  "analyze_incident_zone sv lat lon incident_location incident_type start_date end_date lg =
     (let point = Point lon lat; buffered_point = Buffer point 500 in
      (and_then (strptime sv start_date) (\<lambda>start_day.
       and_then (strptime sv end_date) (\<lambda>end_day.
       and_then (analyze_vegetation_and_water (engine sv) point buffered_point start_day end_day)
         (\<lambda>(ndvi_frame, ndwi_frame, ndvi_mean, ndwi_mean).
       and_then (unpack_two [Frame ndvi_frame, Frame ndwi_frame, Number ndvi_mean,
                             Number ndwi_mean]) (\<lambda>(x, y).
         case (x, y) of
           (Frame ndvi_data, Frame ndwi_data) \<Rightarrow>
             incident_zone_report sv buffered_point incident_type ndvi_data ndwi_data
         | _ \<Rightarrow> Inl TypeError)))),
       lg @ [(INFO, ''Analyzing incident zone for '' @ incident_type @ '' at '' @
                    incident_location)]))"

section \<open>Geocoding: \<open>create_geojson_from_location\<close>\<close>

text \<open>
  The geocoding request is a parameter: it gives the HTTP response or the exception of
  the transport. A response has a status code and a body, which \<open>response.json()\<close>
  decodes into the list of candidates, each with its latitude and longitude as text.
  \<open>py_float\<close> is Python's \<open>float\<close> on such a text. The file system maps a path to the
  GeoJSON document stored there, and \<open>writable\<close> says where a file can be created.
  The verification of lines 328 to 339 reads back the document just stored.
\<close>

record candidate =
  lat_text :: string
  lon_text :: string

record geocode_response =
  status_code :: int
  json_body :: "error + candidate list"

record gj_geometry =
  gtype :: string
  coordinates :: "real list"

record gj_feature =
  prop_name :: string
  geometry :: "gj_geometry option"

record geojson =
  features :: "gj_feature list"

record system =
  files :: "string \<rightharpoonup> geojson"
  writable :: "string \<Rightarrow> bool"
  logged :: log

definition geocode_url :: "string \<Rightarrow> string" where
  "geocode_url location =
     ''https://nominatim.openstreetmap.org/search?q='' @ location @ ''&format=json&limit=1''"

definition resolve_point ::
  "(string \<Rightarrow> error + real) \<Rightarrow> geocode_response \<Rightarrow> string \<Rightarrow> error + ((real \<times> real) \<times> log)" where
  \<comment> \<open>lines 309 to 320: the point as (x, y), that is (longitude, latitude), and the
      warnings logged\<close>
  "resolve_point py_float response location =
     (if status_code response = 200 then
        and_then (json_body response) (\<lambda>data.
          case data of
            c # _ \<Rightarrow>
              and_then (py_float (lat_text c)) (\<lambda>la.
              and_then (py_float (lon_text c)) (\<lambda>lo. Inr ((lo, la), [])))
          | [] \<Rightarrow>
              Inr ((0, 0),
                   [(WARNING, ''Could not find coordinates for '' @ location @
                              ''. Using default coordinates.'')]))
      else
        Inr ((0, 0),
             [(WARNING, ''Geocoding service failed. Using default coordinates for '' @
                        location @ ''.'')]))"

definition path_join :: "string \<Rightarrow> string \<Rightarrow> string" where
  \<comment> \<open>\<open>os.path.join(a, b)\<close> on POSIX paths\<close>
  "path_join a b =
     (if b \<noteq> [] \<and> hd b = CHR ''/'' then b
      else if a = [] \<or> last a = CHR ''/'' then a @ b
      else a @ ''/'' @ b)"

definition point_document :: "string \<Rightarrow> real \<times> real \<Rightarrow> geojson" where
  \<comment> \<open>what \<open>gdf.to_file(path, driver='GeoJSON')\<close> stores for the one-row frame\<close>
  "point_document location p =
     \<lparr>features = [\<lparr>prop_name = location,
                    geometry = Some \<lparr>gtype = ''Point'', coordinates = [fst p, snd p]\<rparr>\<rparr>]\<rparr>"

definition verify_geojson :: "geojson \<Rightarrow> string option" where
  \<comment> \<open>lines 331 to 336: the message of the \<open>ValueError\<close> raised, if any\<close>
  "verify_geojson g =
     (case features g of
        [] \<Rightarrow> Some ''Invalid GeoJSON: No features found''
      | f # _ \<Rightarrow>
          (case geometry f of
             None \<Rightarrow> Some ''Invalid GeoJSON: No geometry found in feature''
           | Some geo \<Rightarrow>
               if gtype geo \<noteq> ''Point'' then Some ''Invalid GeoJSON: Geometry is not a Point''
               else None))"

definition create_geojson_from_location ::
  "(string \<Rightarrow> error + geocode_response) \<Rightarrow> (string \<Rightarrow> error + real) \<Rightarrow>
   string \<Rightarrow> string \<Rightarrow> system \<Rightarrow> (error + string) \<times> system" where
  "create_geojson_from_location http_get py_float location output_dir s =
     (case and_then (http_get (geocode_url location))
             (\<lambda>response. resolve_point py_float response location) of
        Inl e \<Rightarrow> (Inl e, s)
      | Inr (point, warnings) \<Rightarrow>
          (let s1 = s\<lparr>logged := logged s @ warnings\<rparr>;
               geojson_path = path_join output_dir (location @ ''.geojson'')
           in if \<not> writable s1 geojson_path then (Inl OSError, s1)
              else
                (let s2 = s1\<lparr>files := (files s1)(geojson_path \<mapsto> point_document location point)\<rparr>;
                     geojson_data = point_document location point
                 in case verify_geojson geojson_data of
                      Some msg \<Rightarrow>
                        (Inl ValueError,
                         s2\<lparr>logged := logged s2 @
                              [(ERROR, ''Error creating GeoJSON file: '' @ msg)]\<rparr>)
                    | None \<Rightarrow> (Inr geojson_path, s2))))"


section \<open>Chat completion: \<open>gpt_3_5_turbo\<close>\<close>

text \<open>
  The chat completion service is a parameter \<open>create\<close>: for a request it gives the
  contents of the choices of the reply, or the exception raised. Console output is not
  part of the model. \<open>json.loads\<close> and the text of a decoded value in an f-string are
  Python's; they are the parameters \<open>json_loads\<close> (\<open>None\<close> when the text is not JSON)
  and \<open>py_str\<close>.
\<close>

record message =
  role :: string
  content :: string

record completion_request =
  model :: string
  messages :: "message list"
  temperature :: real
  max_tokens :: int
  top_p :: real
  frequency_penalty :: real
  presence_penalty :: real

type_synonym chat_service = "completion_request \<Rightarrow> error + string list"

datatype json =
    JNull | JBool bool | JInt int | JFloat real | JStr string
  | JArr "json list" | JObj "(string \<times> json) list"


definition french_fallback :: string where
  "french_fallback =
     ''D'' @ e_acute @ ''sol'' @ e_acute @
     '', je ne peux pas traiter votre demande pour le moment.''"

definition first_choice :: "string list \<Rightarrow> error + string" where
  \<comment> \<open>\<open>r.choices[0].message.content\<close>\<close>
  "first_choice choices = (case choices of [] \<Rightarrow> Inl IndexError | c # _ \<Rightarrow> Inr c)"



definition dict_get :: "json \<Rightarrow> string \<Rightarrow> json \<Rightarrow> error + json" where
  \<comment> \<open>\<open>obj.get(key, fallback)\<close>: only a dict has the method\<close>
  "dict_get obj key fallback =
     (case obj of
        JObj items \<Rightarrow> Inr (case map_of items key of None \<Rightarrow> fallback | Some v \<Rightarrow> v)
      | _ \<Rightarrow> Inl AttributeError)"

definition system_message_head :: string where
  "system_message_head =
     nl @ ''    <system>'' @ nl @ ''        <role>assistant AI</role>'' @ nl @
     ''        <task>analyse des incidents environnementaux</task>'' @ nl @
     ''        <location>Mali</location>'' @ nl @ ''        <incident>'' @ nl @
     ''            <type>''"

definition system_message_analysis :: string where
  "system_message_analysis =
     ''</type>'' @ nl @ ''            <analysis>''"

definition system_message_solution :: string where
  "system_message_solution =
     ''</analysis>'' @ nl @ ''            <solution_tracks>''"

definition system_message_tail :: string where
  "system_message_tail =
     ''</solution_tracks>'' @ nl @ ''        </incident>'' @ nl @ ''        <instructions>'' @
     nl @ ''            <instruction>Adaptez vos r'' @ e_acute @ ''ponses au contexte sp'' @
     e_acute @ ''cifique de l'' @ apos @ ''incident.</instruction>'' @ nl @
     ''            <instruction>Utilisez les informations de contexte '' @
     ''pour enrichir vos explications.</instruction>'' @ nl @
     ''            <instruction>Si la question d'' @ e_acute @
     ''passe le contexte fourni, mentionnez clairement que vous r'' @ e_acute @
     ''pondez de mani'' @ e_grave @ ''re g'' @ e_acute @ ''n'' @ e_acute @
     ''rale.</instruction>'' @ nl @ ''            <instruction>Priorisez les r'' @ e_acute @
     ''ponses concises et orient'' @ e_acute @ ''es sur la r'' @ e_acute @
     ''solution du probl'' @ e_grave @ ''me.</instruction>'' @ nl @
     ''            <instruction>Ne d'' @ e_acute @ ''viez pas de la t'' @ a_circ @
     ''che principale et '' @ e_acute @ ''vitez les r'' @ e_acute @
     ''ponses non pertinentes.</instruction>'' @ nl @ ''            <response_formatting>'' @
     nl @ ''                <formatting_rule>R'' @ e_acute @ ''pondez de mani'' @ e_grave @
     ''re concise, avec une longueur de r'' @ e_acute @ ''ponse id'' @ e_acute @ ''ale de 2 '' @
     a_grave @ '' 3 phrases.</formatting_rule>'' @ nl @
     ''                <formatting_rule>Fournissez une r'' @ e_acute @ ''ponse structur'' @
     e_acute @ ''e : commencez par le probl'' @ e_grave @
     ''me principal, suivez avec la solution propos'' @ e_acute @ ''e.</formatting_rule>'' @ nl @
     ''                <formatting_rule>Utilisez des mots simples et '' @ ''clairs, '' @
     e_acute @ ''vitez le jargon technique inutile.</formatting_rule>'' @ nl @
     ''                <formatting_rule>Donnez des informations '' @
     ''essentielles en utilisant un langage direct et pr'' @ e_acute @
     ''cis.</formatting_rule>'' @ nl @
     ''                <formatting_rule>Si une recommandation est faite, '' @
     ''assurez-vous qu'' @ apos @ ''elle est faisable et contextualis'' @ e_acute @
     ''e.</formatting_rule>'' @ nl @ ''            </response_formatting>'' @ nl @
     ''        </instructions>'' @ nl @ ''        <examples>'' @ nl @ ''            <example>'' @
     nl @ ''                <prompt>Quels sont les impacts de la d'' @ e_acute @
     ''forestation dans cette zone ?</prompt>'' @ nl @ ''                <response>La d'' @
     e_acute @ ''forestation affecte la biodiversit'' @ e_acute @ '' locale en r'' @ e_acute @
     ''duisant les habitats naturels des esp'' @ e_grave @ ''ces. Pour rem'' @ e_acute @
     ''dier '' @ a_grave @ '' cela, la reforestation et l'' @ apos @ e_acute @
     ''ducation communautaire sont des pistes de solution '' @ ''envisageables.</response>'' @
     nl @ ''            </example>'' @ nl @ ''            <example>'' @ nl @
     ''                <prompt>Comment pouvons-nous am'' @ e_acute @ ''liorer la qualit'' @
     e_acute @ '' de l'' @ apos @ ''eau ?</prompt>'' @ nl @
     ''                <response>Les rejets industriels ont contamin'' @ e_acute @ '' la rivi'' @
     e_grave @ ''re. Pour am'' @ e_acute @ ''liorer la qualit'' @ e_acute @ '' de l'' @ apos @
     ''eau, l'' @ apos @ ''installation de stations de traitement des eaux est recommand'' @
     e_acute @ ''e.</response>'' @ nl @ ''            </example>'' @ nl @
     ''            <example>'' @ nl @
     ''                <prompt>Que peut-on faire pour limiter l'' @ apos @ e_acute @
     ''rosion des sols dans cette r'' @ e_acute @ ''gion ?</prompt>'' @ nl @
     ''                <response>L'' @ apos @ e_acute @ ''rosion des sols est exacerb'' @
     e_acute @ ''e par la d'' @ e_acute @
     ''forestation et les pratiques agricoles non durables. Pour limiter '' @ ''l'' @ apos @
     e_acute @ ''rosion, il est recommand'' @ e_acute @ '' de pratiquer l'' @ apos @
     ''agroforesterie, de planter des haies pour prot'' @ e_acute @
     ''ger les sols, et de promouvoir des techniques agricoles '' @
     ''conservatrices.</response>'' @ nl @ ''            </example>'' @ nl @
     ''            <example>'' @ nl @ ''                <prompt>Quelles sont les cons'' @
     e_acute @ ''quences de la pollution de l'' @ apos @ ''air sur la sant'' @ e_acute @
     '' publique ici ?</prompt>'' @ nl @ ''                <response>La pollution de l'' @ apos @
     ''air, principalement due aux '' @ e_acute @ ''missions industrielles et '' @ a_grave @
     '' la combustion de biomasse, a des effets n'' @ e_acute @ ''gatifs sur la sant'' @
     e_acute @ '' publique, notamment des probl'' @ e_grave @
     ''mes respiratoires et cardiovasculaires. Pour att'' @ e_acute @
     ''nuer ces impacts, il est essentiel de r'' @ e_acute @ ''duire les sources d'' @ apos @
     e_acute @ ''missions et de promouvoir des '' @ e_acute @
     ''nergies plus propres.</response>'' @ nl @ ''            </example>'' @ nl @
     ''            <example>'' @ nl @ ''                <prompt>Comment r'' @ e_acute @
     ''duire l'' @ apos @ ''impact de la pollution plastique sur l'' @ apos @
     ''environnement local ?</prompt>'' @ nl @
     ''                <response>La pollution plastique peut '' @ e_circ @ ''tre r'' @ e_acute @
     ''duite en mettant en place des syst'' @ e_grave @
     ''mes de collecte et de recyclage des d'' @ e_acute @
     ''chets, en sensibilisant la population '' @ a_grave @ '' la r'' @ e_acute @
     ''duction de l'' @ apos @
     ''utilisation du plastique, et en favorisant des alternatives biod'' @ e_acute @
     ''gradables.</response>'' @ nl @ ''            </example>'' @ nl @
     ''            <example>'' @ nl @ ''                <prompt>Quelles mesures peuvent '' @
     e_circ @ ''tre prises pour prot'' @ e_acute @ ''ger la faune menac'' @ e_acute @
     ''e dans cette r'' @ e_acute @ ''gion ?</prompt>'' @ nl @
     ''                <response>Pour prot'' @ e_acute @ ''ger la faune menac'' @ e_acute @
     ''e, il est crucial de cr'' @ e_acute @ ''er des zones prot'' @ e_acute @ ''g'' @ e_acute @
     ''es, de lutter contre le braconnage, et de promouvoir des '' @
     ''pratiques agricoles respectueuses de l'' @ apos @
     ''environnement qui minimisent la destruction des habitats '' @ ''naturels.</response>'' @
     nl @ ''            </example>'' @ nl @ ''            <example>'' @ nl @
     ''                <prompt>Parlons de musique !</prompt>'' @ nl @
     ''                <response>Je comprends que vous souhaitez parler '' @
     ''de musique. Toutefois, ma t'' @ a_circ @ ''che principale est d'' @ apos @
     ''analyser les incidents environnementaux. Si vous avez des '' @
     ''questions sur un incident environnemental, je serais ravi de vous '' @
     ''aider.</response>'' @ nl @ ''            </example>'' @ nl @ ''            <example>'' @
     nl @ ''                <prompt>Avez-vous vu le dernier film populaire '' @ ''?</prompt>'' @
     nl @ ''                <response>Je ne suis pas programm'' @ e_acute @
     '' pour discuter des films r'' @ e_acute @ ''cents. Mon r'' @ o_circ @
     ''le est de vous assister dans l'' @ apos @
     ''analyse des incidents environnementaux. Revenons '' @ a_grave @
     '' ce sujet, si vous le voulez bien.</response>'' @ nl @ ''            </example>'' @ nl @
     ''            <example>'' @ nl @
     ''                <prompt>Quels sont les meilleurs restaurants ici '' @ ''?</prompt>'' @
     nl @ ''                <response>Je me concentre actuellement sur l'' @ apos @
     ''analyse des incidents environnementaux. Pour toute question '' @
     ''relative aux incidents ou '' @ a_grave @ '' des pistes de solution, je suis pr'' @
     e_circ @ ''t '' @ a_grave @ '' vous aider.</response>'' @ nl @ ''            </example>'' @
     nl @ ''        </examples>'' @ nl @ ''    </system>'' @ nl @ ''    ''"

definition system_message :: "string \<Rightarrow> string \<Rightarrow> string \<Rightarrow> string" where
  \<comment> \<open>lines 110 to 173\<close>
  "system_message incident_type analysis piste_solution =
     system_message_head @ incident_type @ system_message_analysis @ analysis @
     system_message_solution @ piste_solution @ system_message_tail"

definition chat_messages :: "string \<Rightarrow> message list \<Rightarrow> string \<Rightarrow> message list" where
  \<comment> \<open>lines 176 to 178\<close>
  "chat_messages system_text chat_history prompt =
     [\<lparr>role = ''system'', content = system_text\<rparr>] @ chat_history @
     [\<lparr>role = ''user'', content = prompt\<rparr>]"

definition chat_response ::
  "(string \<Rightarrow> json option) \<Rightarrow> (json \<Rightarrow> string) \<Rightarrow> chat_service \<Rightarrow>
   string \<Rightarrow> string \<Rightarrow> message list \<Rightarrow> error + string" where
  "chat_response json_loads py_str create prompt context chat_history =
     (case json_loads context of
        None \<Rightarrow> Inl JSONDecodeError
      | Some context_obj \<Rightarrow>
          and_then (dict_get context_obj ''type_incident'' (JStr ''Inconnu'')) (\<lambda>incident_type.
          and_then (dict_get context_obj ''analysis''
                      (JStr (''Non sp'' @ e_acute @ ''cifi'' @ e_acute))) (\<lambda>analysis.
          and_then (dict_get context_obj ''piste_solution''
                      (JStr (''Non sp'' @ e_acute @ ''cifi'' @ e_acute))) (\<lambda>piste_solution.
            Inr (case and_then
                        (create \<lparr>model = ''gpt-4o-mini'',
                                 messages = chat_messages
                                   (system_message (py_str incident_type) (py_str analysis)
                                      (py_str piste_solution))
                                   chat_history prompt,
                                 temperature = 0.5, max_tokens = 1080, top_p = 0.8,
                                 frequency_penalty = 0.3, presence_penalty = 0\<rparr>)
                        first_choice of
                   Inr assistant_response \<Rightarrow> assistant_response
                 | Inl e \<Rightarrow> french_fallback)))))"

definition chat_response_default ::
  "(string \<Rightarrow> json option) \<Rightarrow> (json \<Rightarrow> string) \<Rightarrow> chat_service \<Rightarrow> string \<Rightarrow> error + string" where
  \<comment> \<open>\<open>chat_response(prompt)\<close>: the defaults \<open>context=""\<close> and \<open>chat_history=[]\<close>\<close>
  "chat_response_default json_loads py_str create prompt =
     chat_response json_loads py_str create prompt [] []"


section \<open>Example services\<close>

text \<open>
  Sample answers of the imagery service, used to run the extraction on concrete scenes:
  an engine that gives the same results to every request, and two scenes that the
  service lists once with the later one first and once by acquisition time.
\<close>

definition fixed_engine :: "ee_results \<Rightarrow> earth_engine" where
  "fixed_engine r = (\<lambda>point buffered_point start_date end_date. r)"

definition region_header :: "string \<Rightarrow> string list" where
  "region_header band_name = [''id'', ''longitude'', ''latitude'', ''time'', band_name]"

definition scene :: "string \<Rightarrow> int \<Rightarrow> real option \<Rightarrow> feature" where
  "scene i t v = \<lparr>fid = i, longitude = - 8, latitude = 12.65, time_start = t, band = v\<rparr>"

definition scenes_out_of_order :: ee_results where
  "scenes_out_of_order =
     \<lparr>ndvi_region = Inr (region_header ''NDVI'',
                         [scene ''b'' 1672660800000 (Some 0.5), scene ''a'' 1672574400000 (Some 0.4)]),
      ndwi_region = Inr (region_header ''NDWI'',
                         [scene ''b'' 1672660800000 (Some 0.1), scene ''a'' 1672574400000 None]),
      ndvi_reduce = Inr [(''NDVI'', Some 0.45)],
      ndwi_reduce = Inr [(''NDWI'', Some 0.1)]\<rparr>"

definition scenes_in_order :: ee_results where
  "scenes_in_order =
     \<lparr>ndvi_region = Inr (region_header ''NDVI'',
                         [scene ''a'' 1672574400000 (Some 0.4), scene ''b'' 1672660800000 (Some 0.5)]),
      ndwi_region = Inr (region_header ''NDWI'',
                         [scene ''a'' 1672574400000 None, scene ''b'' 1672660800000 (Some 0.1)]),
      ndvi_reduce = Inr [(''NDVI'', Some 0.45)],
      ndwi_reduce = Inr [(''NDWI'', Some 0.1)]\<rparr>"

text \<open>
  Sample answers of the geocoding and chat services, and of the Python built-ins taken as
  parameters: a geocoder that finds no candidate and one that is unavailable, a
  \<open>float\<close> that rejects every text, a file system where every path can be written, a
  chat service that raises and one that answers, and a JSON decoder that knows one
  document and rejects every other text, the empty one included.
\<close>

definition no_match_service :: "string \<Rightarrow> error + geocode_response" where
  "no_match_service url = Inr \<lparr>status_code = 200, json_body = Inr []\<rparr>"

definition unavailable_service :: "string \<Rightarrow> error + geocode_response" where
  "unavailable_service url = Inr \<lparr>status_code = 503, json_body = Inl JSONDecodeError\<rparr>"

definition reject_float :: "string \<Rightarrow> error + real" where
  "reject_float t = Inl ValueError"

definition empty_system :: system where
  "empty_system = \<lparr>files = Map.empty, writable = (\<lambda>path. True), logged = []\<rparr>"


definition answering_chat :: chat_service where
  "answering_chat request = Inr [''Bonjour'']"

definition sample_context :: string where
  "sample_context = ''{'' @ [CHR 0x22] @ ''type_incident'' @ [CHR 0x22] @ '': '' @
     [CHR 0x22] @ ''Inondation'' @ [CHR 0x22] @ ''}''"

definition sample_json_loads :: "string \<Rightarrow> json option" where
  "sample_json_loads t =
     (if t = sample_context then Some (JObj [(''type_incident'', JStr ''Inondation'')])
      else None)"

definition sample_py_str :: "json \<Rightarrow> string" where
  "sample_py_str v = (case v of JStr t \<Rightarrow> t | _ \<Rightarrow> ''None'')"

section \<open>Properties of the narrative\<close>

lemma py_gt_irrefl: "\<not> py_gt x x"
  by (cases x) (simp_all add: py_gt_def)

lemma iloc_last: "xs \<noteq> [] \<Longrightarrow> iloc xs (- 1) = Inr (last xs)"
  by (cases xs rule: rev_cases) (simp_all add: iloc_def Let_def)

lemma iloc_first: "xs \<noteq> [] \<Longrightarrow> iloc xs 0 = Inr (hd xs)"
  by (cases xs) (simp_all add: iloc_def)

lemma iloc_empty: "iloc [] i = Inl IndexError"
  by (simp add: iloc_def Let_def)

lemma index_trend_nonempty:
  "xs \<noteq> [] \<Longrightarrow>
   index_trend xs = Inr (if py_gt (last xs) (hd xs) then ''augmentation'' else ''diminution'')"
  by (simp add: index_trend_def and_then_def iloc_last iloc_first)

lemma index_trend_empty: "index_trend [] = Inl IndexError"
  by (simp add: index_trend_def and_then_def iloc_empty)

lemma ndvi_analysis_nonempty:
  assumes "getitem df ''NDVI'' = Inr c" "numeric c = Inr xs" "xs \<noteq> []"
  shows "ndvi_analysis mean df =
     Inr (ndvi_sentence (mean xs)
            (if py_gt (last xs) (hd xs) then ''augmentation'' else ''diminution'') @
          ndvi_health (mean xs), mean xs,
          if py_gt (last xs) (hd xs) then ''augmentation'' else ''diminution'')"
  using assms unfolding ndvi_analysis_def
  by (simp add: and_then_def Let_def index_trend_nonempty)

lemma ndwi_analysis_nonempty:
  assumes "getitem df ''NDWI'' = Inr c" "numeric c = Inr xs" "xs \<noteq> []"
  shows "ndwi_analysis mean df =
     Inr (ndwi_sentence (mean xs)
            (if py_gt (last xs) (hd xs) then ''augmentation'' else ''diminution'') @
          ndwi_presence (mean xs), mean xs,
          if py_gt (last xs) (hd xs) then ''augmentation'' else ''diminution'')"
  using assms unfolding ndwi_analysis_def
  by (simp add: and_then_def Let_def index_trend_nonempty)

lemma ndvi_analysis_empty:
  assumes "getitem df ''NDVI'' = Inr c" "numeric c = Inr []"
  shows "ndvi_analysis mean df = Inl IndexError"
  using assms unfolding ndvi_analysis_def
  by (simp add: and_then_def Let_def index_trend_empty)

lemma ndwi_analysis_empty:
  assumes "getitem df ''NDWI'' = Inr c" "numeric c = Inr []"
  shows "ndwi_analysis mean df = Inl IndexError"
  using assms unfolding ndwi_analysis_def
  by (simp add: and_then_def Let_def index_trend_empty)

lemma narrative_of_nonempty_series:
  assumes "getitem ndvi_data ''NDVI'' = Inr c1" and "numeric c1 = Inr xs" and "xs \<noteq> []"
    and "getitem ndwi_data ''NDWI'' = Inr c2" and "numeric c2 = Inr ys" and "ys \<noteq> []"
  shows "generate_textual_analysis mean ndvi_data ndwi_data landcover_data incident_type =
     and_then (land_cover_analysis landcover_data) (\<lambda>cover_text.
     and_then (incident_specific_analysis landcover_data incident_type
                 (if py_gt (last xs) (hd xs) then ''augmentation'' else ''diminution'')
                 (mean ys)
                 (if py_gt (last ys) (hd ys) then ''augmentation'' else ''diminution''))
       (\<lambda>incident_text.
         Inr (analysis_header incident_type @
              ndvi_sentence (mean xs)
                (if py_gt (last xs) (hd xs) then ''augmentation'' else ''diminution'') @
              ndvi_health (mean xs) @
              ndwi_sentence (mean ys)
                (if py_gt (last ys) (hd ys) then ''augmentation'' else ''diminution'') @
              ndwi_presence (mean ys) @ cover_text @ incident_text)))"
  unfolding generate_textual_analysis_def
    ndvi_analysis_nonempty [OF assms(1,2,3)] ndwi_analysis_nonempty [OF assms(4,5,6)]
  by (simp add: and_then_def split: sum.splits)

lemma sample_cover_text:
  "\<exists>cover_text. land_cover_analysis [(''Prairies'', 600), (''Arbustes'', 400)] = Inr cover_text"
  by (simp add: land_cover_analysis_def cover_percent_def dict_getitem_def py_truediv_def
      and_then_def)

lemma other_incident_text:
  "incident_specific_analysis landcover_data ''Autre'' ndvi_trend avg_ndwi ndwi_trend = Inr []"
  by (simp add: incident_specific_analysis_def)

lemma phrases_differ:
  "generally_good \<noteq> moderate" "generally_good \<noteq> potentially_low"
  "moderate \<noteq> potentially_low" "significant_water \<noteq> relatively_dry"
  by (simp_all add: generally_good_def moderate_def potentially_low_def
      significant_water_def relatively_dry_def)

text \<open>
  Claim C1, as amended. When the NDVI series or the NDWI series is empty,
  \<open>generate_textual_analysis\<close> raises \<open>IndexError\<close>: the mean of an empty series is
  NaN, and the positional read of its last value, in the trend of lines 243 and 255, is
  out of bounds. The function has no clause for insufficient data, and no narrative is
  returned.
\<close>

theorem empty_series_raises:
  assumes "getitem ndvi_data ''NDVI'' = Inr c1" and "numeric c1 = Inr xs"
    and "getitem ndwi_data ''NDWI'' = Inr c2" and "numeric c2 = Inr ys"
    and "xs = [] \<or> ys = []"
  shows "generate_textual_analysis mean ndvi_data ndwi_data landcover_data incident_type =
         Inl IndexError"
proof (cases "xs = []")
  case True
  with assms(1,2) have "ndvi_analysis mean ndvi_data = Inl IndexError"
    by (simp add: ndvi_analysis_empty)
  then show ?thesis
    by (simp add: generate_textual_analysis_def and_then_def)
next
  case False
  with assms(5) have ys: "ys = []" by simp
  from False assms(1,2) obtain t a r where "ndvi_analysis mean ndvi_data = Inr (t, a, r)"
    using ndvi_analysis_nonempty by blast
  moreover from ys assms(3,4) have "ndwi_analysis mean ndwi_data = Inl IndexError"
    by (simp add: ndwi_analysis_empty)
  ultimately show ?thesis
    by (simp add: generate_textual_analysis_def and_then_def)
qed

theorem empty_series_raises_witness:
  "generate_textual_analysis exact_mean
     [(''Date'', DateCol [19358, 19389]), (''NDVI'', FloatCol [Val 0.2, Val 0.6])]
     [(''Date'', DateCol []), (''NDWI'', FloatCol [])]
     [(''Prairies'', 600), (''Arbustes'', 400)] (''Pollution de l'' @ apos @ ''eau'') = Inl IndexError"
  using empty_series_raises [of
     "[(''Date'', DateCol [19358, 19389]), (''NDVI'', FloatCol [Val 0.2, Val 0.6])]"
     "FloatCol [Val 0.2, Val 0.6]" "[Val 0.2, Val 0.6]"
     "[(''Date'', DateCol []), (''NDWI'', FloatCol [])]" "FloatCol []" "[]"
     exact_mean "[(''Prairies'', 600), (''Arbustes'', 400)]"
     "''Pollution de l'' @ apos @ ''eau''"]
  by (simp add: getitem_def numeric_def)

text \<open>
  The claim as stated fails: with both series empty the call raises instead of returning
  a narrative.
\<close>

theorem empty_series_counterexample:
  "generate_textual_analysis exact_mean
     [(''Date'', DateCol []), (''NDVI'', FloatCol [])]
     [(''Date'', DateCol []), (''NDWI'', FloatCol [])]
     [(''Prairies'', 1000)] (''D'' @ e_acute @ ''forestation'') = Inl IndexError"
  by (simp add: generate_textual_analysis_def and_then_def ndvi_analysis_def getitem_def
      numeric_def index_trend_def iloc_def)

text \<open>
  Claim C2. For non-empty series, \<open>generate_textual_analysis\<close> returns a narrative
  whenever the land-cover part and the incident part do, and the narrative is the header,
  the NDVI sentence with the NDVI trend, the vegetation bucket, the NDWI sentence with the
  NDWI trend, the water bucket and then these two parts. Each trend is \<open>augmentation\<close>
  exactly when the last value of the series is strictly greater than the first, and
  \<open>diminution\<close> otherwise; equal first and last values give \<open>diminution\<close>, for NDVI
  and for NDWI.
\<close>

theorem trend_is_strict_comparison:
  assumes "getitem ndvi_data ''NDVI'' = Inr c1" and "numeric c1 = Inr xs" and "xs \<noteq> []"
    and "getitem ndwi_data ''NDWI'' = Inr c2" and "numeric c2 = Inr ys" and "ys \<noteq> []"
  shows "\<exists>ndvi_trend ndwi_trend.
           generate_textual_analysis mean ndvi_data ndwi_data landcover_data incident_type =
             and_then (land_cover_analysis landcover_data) (\<lambda>cover_text.
             and_then (incident_specific_analysis landcover_data incident_type
                         ndvi_trend (mean ys) ndwi_trend) (\<lambda>incident_text.
               Inr (analysis_header incident_type @
                    ndvi_sentence (mean xs) ndvi_trend @ ndvi_health (mean xs) @
                    ndwi_sentence (mean ys) ndwi_trend @ ndwi_presence (mean ys) @
                    cover_text @ incident_text))) \<and>
           (ndvi_trend = ''augmentation'' \<longleftrightarrow> py_gt (last xs) (hd xs)) \<and>
           (ndvi_trend = ''diminution'' \<longleftrightarrow> \<not> py_gt (last xs) (hd xs)) \<and>
           (last xs = hd xs \<longrightarrow> ndvi_trend = ''diminution'') \<and>
           (ndwi_trend = ''augmentation'' \<longleftrightarrow> py_gt (last ys) (hd ys)) \<and>
           (ndwi_trend = ''diminution'' \<longleftrightarrow> \<not> py_gt (last ys) (hd ys)) \<and>
           (last ys = hd ys \<longrightarrow> ndwi_trend = ''diminution'')"
  apply (rule exI [of _ "if py_gt (last xs) (hd xs) then ''augmentation'' else ''diminution''"])
  apply (rule exI [of _ "if py_gt (last ys) (hd ys) then ''augmentation'' else ''diminution''"])
  apply (rule conjI)
   apply (rule narrative_of_nonempty_series [OF assms])
  apply (simp add: py_gt_irrefl)
  done

theorem trend_is_strict_comparison_witness:
  "\<exists>cover_text.
     generate_textual_analysis exact_mean
       [(''Date'', DateCol [19358, 19389]), (''NDVI'', FloatCol [Val 0.5, Val 0.5])]
       [(''Date'', DateCol [19358, 19389]), (''NDWI'', FloatCol [Val 0.125, Val 0.25])]
       [(''Prairies'', 600), (''Arbustes'', 400)] ''Autre'' =
     Inr (analysis_header ''Autre'' @
          ndvi_sentence (Val 0.5) ''diminution'' @ ndvi_health (Val 0.5) @
          ndwi_sentence (Val 0.1875) ''augmentation'' @ ndwi_presence (Val 0.1875) @
          cover_text)"
proof -
  have m1: "exact_mean [Val 0.5, Val 0.5] = Val 0.5"
    by (simp add: exact_mean_def)
  have m2: "exact_mean [Val 0.125, Val 0.25] = Val 0.1875"
    by (simp add: exact_mean_def)
  obtain cover_text where
    c: "land_cover_analysis [(''Prairies'', 600), (''Arbustes'', 400)] = Inr cover_text"
    using sample_cover_text by blast
  from trend_is_strict_comparison [of
     "[(''Date'', DateCol [19358, 19389]), (''NDVI'', FloatCol [Val 0.5, Val 0.5])]"
     "FloatCol [Val 0.5, Val 0.5]" "[Val 0.5, Val 0.5]"
     "[(''Date'', DateCol [19358, 19389]), (''NDWI'', FloatCol [Val 0.125, Val 0.25])]"
     "FloatCol [Val 0.125, Val 0.25]" "[Val 0.125, Val 0.25]"
     exact_mean "[(''Prairies'', 600), (''Arbustes'', 400)]" "''Autre''"]
  obtain ndvi_trend ndwi_trend where
    t: "generate_textual_analysis exact_mean
          [(''Date'', DateCol [19358, 19389]), (''NDVI'', FloatCol [Val 0.5, Val 0.5])]
          [(''Date'', DateCol [19358, 19389]), (''NDWI'', FloatCol [Val 0.125, Val 0.25])]
          [(''Prairies'', 600), (''Arbustes'', 400)] ''Autre'' =
        Inr (analysis_header ''Autre'' @
             ndvi_sentence (Val 0.5) ndvi_trend @ ndvi_health (Val 0.5) @
             ndwi_sentence (Val 0.1875) ndwi_trend @ ndwi_presence (Val 0.1875) @
             cover_text)"
    and "ndvi_trend = ''diminution''" and "ndwi_trend = ''augmentation''"
    unfolding m1 m2 c other_incident_text
    by (auto simp add: getitem_def numeric_def and_then_def py_gt_def)
  then show ?thesis by blast
qed

lemma ndvi_health_cases:
  "(py_gt m (Val 0.5) \<longrightarrow> ndvi_health m = generally_good) \<and>
   (py_gt m (Val 0.3) \<and> py_le m (Val 0.5) \<longrightarrow> ndvi_health m = moderate) \<and>
   (py_le m (Val 0.3) \<longrightarrow> ndvi_health m = potentially_low)"
  by (cases m) (auto simp add: ndvi_health_def py_gt_def py_le_def)

lemma ndwi_presence_cases:
  "(py_gt w (Val 0) \<longrightarrow> ndwi_presence w = significant_water) \<and>
   (py_le w (Val 0) \<longrightarrow> ndwi_presence w = relatively_dry)"
  by (cases w) (auto simp add: ndwi_presence_def py_gt_def py_le_def)

text \<open>
  Claim C3. For non-empty series, the narrative that \<open>generate_textual_analysis\<close>
  returns carries, after each index sentence, the bucket of the mean that the code
  computes for that series: an NDVI mean above 0.5 is \<open>generally_good\<close>; above 0.3 and
  at most 0.5, so also exactly 0.5, is \<open>moderate\<close>; at most 0.3 is
  \<open>potentially_low\<close>. An NDWI mean above 0 is \<open>significant_water\<close>; at most 0, so
  also exactly 0, is \<open>relatively_dry\<close>. The phrases are pairwise different texts.
\<close>

theorem bucket_boundaries:
  assumes "getitem ndvi_data ''NDVI'' = Inr c1" and "numeric c1 = Inr xs" and "xs \<noteq> []"
    and "getitem ndwi_data ''NDWI'' = Inr c2" and "numeric c2 = Inr ys" and "ys \<noteq> []"
  shows "\<exists>ndvi_trend ndwi_trend.
           generate_textual_analysis mean ndvi_data ndwi_data landcover_data incident_type =
             and_then (land_cover_analysis landcover_data) (\<lambda>cover_text.
             and_then (incident_specific_analysis landcover_data incident_type
                         ndvi_trend (mean ys) ndwi_trend) (\<lambda>incident_text.
               Inr (analysis_header incident_type @
                    ndvi_sentence (mean xs) ndvi_trend @ ndvi_health (mean xs) @
                    ndwi_sentence (mean ys) ndwi_trend @ ndwi_presence (mean ys) @
                    cover_text @ incident_text))) \<and>
           (py_gt (mean xs) (Val 0.5) \<longrightarrow> ndvi_health (mean xs) = generally_good) \<and>
           (py_gt (mean xs) (Val 0.3) \<and> py_le (mean xs) (Val 0.5) \<longrightarrow>
              ndvi_health (mean xs) = moderate) \<and>
           (mean xs = Val 0.5 \<longrightarrow> ndvi_health (mean xs) = moderate) \<and>
           (py_le (mean xs) (Val 0.3) \<longrightarrow> ndvi_health (mean xs) = potentially_low) \<and>
           (py_gt (mean ys) (Val 0) \<longrightarrow> ndwi_presence (mean ys) = significant_water) \<and>
           (py_le (mean ys) (Val 0) \<longrightarrow> ndwi_presence (mean ys) = relatively_dry) \<and>
           (mean ys = Val 0 \<longrightarrow> ndwi_presence (mean ys) = relatively_dry) \<and>
           generally_good \<noteq> moderate \<and> generally_good \<noteq> potentially_low \<and>
           moderate \<noteq> potentially_low \<and> significant_water \<noteq> relatively_dry"
proof -
  have a: "mean xs = Val 0.5 \<longrightarrow> ndvi_health (mean xs) = moderate"
    by (simp add: ndvi_health_def py_gt_def)
  have b: "mean ys = Val 0 \<longrightarrow> ndwi_presence (mean ys) = relatively_dry"
    by (simp add: ndwi_presence_def py_gt_def)
  show ?thesis
    apply (rule exI [of _ "if py_gt (last xs) (hd xs) then ''augmentation'' else ''diminution''"])
    apply (rule exI [of _ "if py_gt (last ys) (hd ys) then ''augmentation'' else ''diminution''"])
    apply (rule conjI)
     apply (rule narrative_of_nonempty_series [OF assms])
    using ndvi_health_cases [of "mean xs"] ndwi_presence_cases [of "mean ys"] a b
      phrases_differ
    apply blast
    done
qed

theorem bucket_boundaries_witness:
  "\<exists>ndvi_trend ndwi_trend cover_text.
     generate_textual_analysis exact_mean
       [(''Date'', DateCol [19358, 19389]), (''NDVI'', FloatCol [Val 0.25, Val 0.75])]
       [(''Date'', DateCol [19358, 19389]), (''NDWI'', FloatCol [Val 0.125, Val (- 0.125)])]
       [(''Prairies'', 600), (''Arbustes'', 400)] ''Autre'' =
     Inr (analysis_header ''Autre'' @
          ndvi_sentence (Val 0.5) ndvi_trend @ moderate @
          ndwi_sentence (Val 0) ndwi_trend @ relatively_dry @ cover_text)"
proof -
  have m1: "exact_mean [Val 0.25, Val 0.75] = Val 0.5"
    by (simp add: exact_mean_def)
  have m2: "exact_mean [Val 0.125, Val (- 0.125)] = Val 0"
    by (simp add: exact_mean_def)
  obtain cover_text where
    c: "land_cover_analysis [(''Prairies'', 600), (''Arbustes'', 400)] = Inr cover_text"
    using sample_cover_text by blast
  have p: "getitem [(''Date'', DateCol [19358, 19389]), (''NDVI'', FloatCol [Val 0.25, Val 0.75])]
             ''NDVI'' = Inr (FloatCol [Val 0.25, Val 0.75])"
    "numeric (FloatCol [Val 0.25, Val 0.75]) = Inr [Val 0.25, Val 0.75]"
    "[Val 0.25, Val 0.75] \<noteq> []"
    "getitem [(''Date'', DateCol [19358, 19389]),
              (''NDWI'', FloatCol [Val 0.125, Val (- 0.125)])] ''NDWI'' =
       Inr (FloatCol [Val 0.125, Val (- 0.125)])"
    "numeric (FloatCol [Val 0.125, Val (- 0.125)]) = Inr [Val 0.125, Val (- 0.125)]"
    "[Val 0.125, Val (- 0.125)] \<noteq> []"
    by (simp_all add: getitem_def numeric_def)
  from bucket_boundaries [OF p, of exact_mean "[(''Prairies'', 600), (''Arbustes'', 400)]"
      "''Autre''", unfolded m1 m2 c other_incident_text]
  obtain ndvi_trend ndwi_trend where
    t: "generate_textual_analysis exact_mean
          [(''Date'', DateCol [19358, 19389]), (''NDVI'', FloatCol [Val 0.25, Val 0.75])]
          [(''Date'', DateCol [19358, 19389]), (''NDWI'', FloatCol [Val 0.125, Val (- 0.125)])]
          [(''Prairies'', 600), (''Arbustes'', 400)] ''Autre'' =
        and_then (Inr cover_text) (\<lambda>cover_text.
        and_then (Inr []) (\<lambda>incident_text.
          Inr (analysis_header ''Autre'' @
               ndvi_sentence (Val 0.5) ndvi_trend @ ndvi_health (Val 0.5) @
               ndwi_sentence (Val 0) ndwi_trend @ ndwi_presence (Val 0) @
               cover_text @ incident_text)))"
    and h: "Val 0.5 = Val 0.5 \<longrightarrow> ndvi_health (Val 0.5) = moderate"
    and w: "Val 0 = Val 0 \<longrightarrow> ndwi_presence (Val 0) = relatively_dry"
    by (elim exE conjE) (rule that, assumption+)
  from h w have "ndvi_health (Val 0.5) = moderate" "ndwi_presence (Val 0) = relatively_dry"
    by simp_all
  with t have
    "generate_textual_analysis exact_mean
       [(''Date'', DateCol [19358, 19389]), (''NDVI'', FloatCol [Val 0.25, Val 0.75])]
       [(''Date'', DateCol [19358, 19389]), (''NDWI'', FloatCol [Val 0.125, Val (- 0.125)])]
       [(''Prairies'', 600), (''Arbustes'', 400)] ''Autre'' =
     Inr (analysis_header ''Autre'' @
          ndvi_sentence (Val 0.5) ndvi_trend @ moderate @
          ndwi_sentence (Val 0) ndwi_trend @ relatively_dry @ cover_text)"
    by (simp add: and_then_def)
  then show ?thesis
    by (intro exI [of _ ndvi_trend] exI [of _ ndwi_trend] exI [of _ cover_text])
qed

text \<open>
  Claim C7. The narrative is a function of its arguments alone: the model reads no clock,
  no random source and no module state, as the source does not. Of the two frames only
  the \<open>NDVI\<close> and \<open>NDWI\<close> columns are read, so two calls whose frames agree on them,
  with the same histogram and incident type, give the same narrative byte for byte,
  whatever the dates and the other columns.
\<close>

theorem narrative_fixed_by_index_values:
  assumes "getitem ndvi_data ''NDVI'' = getitem ndvi_data' ''NDVI''"
    and "getitem ndwi_data ''NDWI'' = getitem ndwi_data' ''NDWI''"
  shows "generate_textual_analysis mean ndvi_data ndwi_data landcover_data incident_type =
         generate_textual_analysis mean ndvi_data' ndwi_data' landcover_data incident_type"
  using assms
  by (simp add: generate_textual_analysis_def ndvi_analysis_def ndwi_analysis_def)

theorem narrative_fixed_by_index_values_witness:
  "generate_textual_analysis exact_mean
     [(''Date'', DateCol [19358, 19389]), (''NDVI'', FloatCol [Val 0.2, Val 0.6])]
     [(''Date'', DateCol [19358, 19389]), (''NDWI'', FloatCol [Val 0.1, Val 0.1])]
     [(''Prairies'', 600), (''Arbustes'', 400)] ''Autre'' =
   generate_textual_analysis exact_mean
     [(''Date'', DateCol [19723, 19754]), (''NDVI'', FloatCol [Val 0.2, Val 0.6]),
      (''NumMois'', IntCol [1, 2])]
     [(''Date'', DateCol [19723, 19754]), (''NDWI'', FloatCol [Val 0.1, Val 0.1])]
     [(''Prairies'', 600), (''Arbustes'', 400)] ''Autre''"
  using narrative_fixed_by_index_values [of
     "[(''Date'', DateCol [19358, 19389]), (''NDVI'', FloatCol [Val 0.2, Val 0.6])]"
     "[(''Date'', DateCol [19723, 19754]), (''NDVI'', FloatCol [Val 0.2, Val 0.6]),
      (''NumMois'', IntCol [1, 2])]"
     "[(''Date'', DateCol [19358, 19389]), (''NDWI'', FloatCol [Val 0.1, Val 0.1])]"
     "[(''Date'', DateCol [19723, 19754]), (''NDWI'', FloatCol [Val 0.1, Val 0.1])]"
     exact_mean "[(''Prairies'', 600), (''Arbustes'', 400)]" "''Autre''"]
  by (simp add: getitem_def)

section \<open>Properties of the extraction\<close>

lemma sorted_feature_dates:
  "sorted (map time_start rows) \<Longrightarrow> sorted (map feature_date rows)"
proof (induction rows)
  case Nil
  then show ?case by simp
next
  case (Cons f rows)
  then show ?case
    by (auto simp add: feature_date_def intro: zdiv_mono1)
qed

lemma data_frame_three:
  "data_frame [(a, ca), (b, cb), (c, cc)] =
     (if column_length ca = column_length cb \<and> column_length cb = column_length cc
      then Inr [(a, ca), (b, cb), (c, cc)] else Inl ValueError)"
  by (auto simp add: data_frame_def)


lemma analyze_vegetation_and_water_Inr:
  assumes "analyze_vegetation_and_water ee p b s e = Inr (ndvi_data, ndwi_data, m1, m2)"
  shows "\<exists>h rows h' rows'.
           ndvi_region (ee p b s e) = Inr (h, rows) \<and>
           ndwi_region (ee p b s e) = Inr (h', rows') \<and>
           length rows' = length rows \<and>
           ndvi_data = [(''Date'', DateCol (map feature_date rows)),
                        (''NDVI'', FloatCol (map feature_value rows))] \<and>
           ndwi_data = [(''Date'', DateCol (map feature_date rows)),
                        (''NDWI'', FloatCol (map feature_value rows'))]"
  using assms
  unfolding analyze_vegetation_and_water_def Let_def data_frame_three
  by (auto simp add: and_then_def getitem_def column_length_def split: sum.splits if_splits)

text \<open>
  Claim C8, as amended. Whenever the extraction returns, the NDVI series and the NDWI
  series have the same number of rows and the same dates: the dates are the UTC days of
  the NDVI rows, in the order in which the imagery service lists them. The code does not
  sort; the dates are non-decreasing when the service lists the scenes by non-decreasing
  acquisition time. (Two regions of different lengths make the call raise
  \<open>ValueError\<close>.)
\<close>

theorem extraction_series_aligned:
  assumes "analyze_vegetation_and_water ee p b s e = Inr (ndvi_data, ndwi_data, m1, m2)"
  shows "\<exists>h rows vs ws.
           ndvi_region (ee p b s e) = Inr (h, rows) \<and>
           ndvi_data = [(''Date'', DateCol (map feature_date rows)), (''NDVI'', FloatCol vs)] \<and>
           ndwi_data = [(''Date'', DateCol (map feature_date rows)), (''NDWI'', FloatCol ws)] \<and>
           length vs = length rows \<and> length ws = length rows \<and>
           (sorted (map time_start rows) \<longrightarrow> sorted (map feature_date rows))"
proof -
  from analyze_vegetation_and_water_Inr [OF assms] obtain h rows h' rows' where
    r: "ndvi_region (ee p b s e) = Inr (h, rows)" "ndwi_region (ee p b s e) = Inr (h', rows')"
       "length rows' = length rows"
       "ndvi_data = [(''Date'', DateCol (map feature_date rows)),
                     (''NDVI'', FloatCol (map feature_value rows))]"
       "ndwi_data = [(''Date'', DateCol (map feature_date rows)),
                     (''NDWI'', FloatCol (map feature_value rows'))]"
    by blast
  show ?thesis
    apply (rule exI [of _ h], rule exI [of _ rows])
    apply (rule exI [of _ "map feature_value rows"], rule exI [of _ "map feature_value rows'"])
    using r sorted_feature_dates by simp
qed


lemma in_order_value:
  "analyze_vegetation_and_water (fixed_engine scenes_in_order) (Point (- 8) 12.65)
     (Buffer (Point (- 8) 12.65) 500) 19358 19722 =
   Inr ([(''Date'', DateCol [19358, 19359]), (''NDVI'', FloatCol [Val 0.4, Val 0.5])],
        [(''Date'', DateCol [19358, 19359]), (''NDWI'', FloatCol [NaN, Val 0.1])],
        Some 0.45, Some 0.1)"
  by (simp add: analyze_vegetation_and_water_def fixed_engine_def scenes_in_order_def
      and_then_def reduce_value_def data_frame_three column_length_def getitem_def
      feature_date_def feature_value_def scene_def region_header_def)

theorem extraction_series_aligned_witness:
  "\<exists>rows vs ws.
     ndvi_region (fixed_engine scenes_in_order (Point (- 8) 12.65)
        (Buffer (Point (- 8) 12.65) 500) 19358 19722) = Inr (region_header ''NDVI'', rows) \<and>
     [(''Date'', DateCol [19358, 19359]), (''NDVI'', FloatCol [Val 0.4, Val 0.5])] =
       [(''Date'', DateCol (map feature_date rows)), (''NDVI'', FloatCol vs)] \<and>
     [(''Date'', DateCol [19358, 19359]), (''NDWI'', FloatCol [NaN, Val 0.1])] =
       [(''Date'', DateCol (map feature_date rows)), (''NDWI'', FloatCol ws)] \<and>
     length vs = length rows \<and> length ws = length rows \<and>
     sorted (map time_start rows) \<and> sorted (map feature_date rows)"
proof -
  from extraction_series_aligned [OF in_order_value] obtain h rows vs ws where
    r: "ndvi_region (fixed_engine scenes_in_order (Point (- 8) 12.65)
          (Buffer (Point (- 8) 12.65) 500) 19358 19722) = Inr (h, rows)"
    and f: "[(''Date'', DateCol [19358, 19359]), (''NDVI'', FloatCol [Val 0.4, Val 0.5])] =
          [(''Date'', DateCol (map feature_date rows)), (''NDVI'', FloatCol vs)]"
       "[(''Date'', DateCol [19358, 19359]), (''NDWI'', FloatCol [NaN, Val 0.1])] =
          [(''Date'', DateCol (map feature_date rows)), (''NDWI'', FloatCol ws)]"
       "length vs = length rows" "length ws = length rows"
    and s: "sorted (map time_start rows) \<longrightarrow> sorted (map feature_date rows)"
    by (elim exE conjE)
  from r have h: "h = region_header ''NDVI''"
    and rows: "rows = [scene ''a'' 1672574400000 (Some 0.4), scene ''b'' 1672660800000 (Some 0.5)]"
    by (simp_all add: fixed_engine_def scenes_in_order_def)
  have t: "sorted (map time_start rows)"
    by (simp add: rows scene_def)
  with s have d: "sorted (map feature_date rows)" by simp
  show ?thesis
    apply (rule exI [of _ rows], rule exI [of _ vs], rule exI [of _ ws])
    using r f t h d by simp
qed

text \<open>
  The claim as stated fails: for scenes listed with the later one first, the extraction
  returns the dates in that order.
\<close>

theorem extraction_dates_counterexample:
  "analyze_vegetation_and_water (fixed_engine scenes_out_of_order) (Point (- 8) 12.65)
     (Buffer (Point (- 8) 12.65) 500) 19358 19722 =
   Inr ([(''Date'', DateCol [19359, 19358]), (''NDVI'', FloatCol [Val 0.5, Val 0.4])],
        [(''Date'', DateCol [19359, 19358]), (''NDWI'', FloatCol [Val 0.1, NaN])],
        Some 0.45, Some 0.1) \<and>
   \<not> sorted [19359, 19358 :: int]"
  by (simp add: analyze_vegetation_and_water_def fixed_engine_def scenes_out_of_order_def
      and_then_def reduce_value_def data_frame_three column_length_def getitem_def
      feature_date_def feature_value_def scene_def region_header_def)

section \<open>Properties of the land-cover histogram and of the charts\<close>

text \<open>
  Claim C5 does not hold of the code. Every class code outside the table is named
  \<open>Inconnu\<close>, and the dict comprehension of line 141 keeps one value per name: with two
  such codes in the sample the later count replaces the earlier one. Here 1000 sampled
  pixels leave a histogram whose values sum to 994.
\<close>

theorem unknown_codes_overwrite:
  "analyze_land_cover (\<lambda>region. Inr [(''10'', 990), (''0'', 6), (''255'', 4)])
     (Buffer (Point (- 8) 12.65) 500) =
   Inr [(''Couverture arbor'' @ e_acute @ ''e'', 990), (''Inconnu'', 4)] \<and>
   sum_list (map snd [(''10'', 990), (''0'', 6), (''255'', 4 :: int)]) = 1000 \<and>
   sum_list (map snd [(''Couverture arbor'' @ e_acute @ ''e'', 990), (''Inconnu'', 4 :: int)]) = 994"
  by (simp add: analyze_land_cover_def and_then_def py_int_def cover_name_def
      land_cover_types_def setitem_def)

lemma civil_19372: "civil_from_days 19372 = (2023, 1, 15)"
  by code_simp

text \<open>
  Claim C4 does not hold of the code. \<open>generate_ndvi_heatmap\<close> assigns the columns
  \<open>NumMois\<close>, \<open>Mois\<close> and \<open>Jour\<close> of the frame it is given, so after the call the
  caller's NDVI frame has five columns instead of two, whatever the drawing step does.
\<close>

theorem heatmap_adds_columns:
  "generate_ndvi_heatmap png [(''Date'', DateCol [19372]), (''NDVI'', FloatCol [Val 0.4])] =
     (png
        [(''Date'', DateCol [19372]), (''NDVI'', FloatCol [Val 0.4]), (''NumMois'', IntCol [1]),
         (''Mois'', ObjCol [Some ''Janv'']), (''Jour'', IntCol [15])],
      [(''Date'', DateCol [19372]), (''NDVI'', FloatCol [Val 0.4]), (''NumMois'', IntCol [1]),
       (''Mois'', ObjCol [Some ''Janv'']), (''Jour'', IntCol [15])])"
  by (simp add: generate_ndvi_heatmap_def getitem_def setitem_def dt_month_def dt_day_def
      civil_19372 mois_abbr_francais_def Let_def)

section \<open>Properties of geocoding and chat\<close>

lemma resolve_point_fallback:
  assumes "status_code response \<noteq> 200 \<or> json_body response = Inr []"
  shows "resolve_point py_float response location =
     Inr ((0, 0),
          [(WARNING,
            if status_code response = 200
            then ''Could not find coordinates for '' @ location @ ''. Using default coordinates.''
            else ''Geocoding service failed. Using default coordinates for '' @ location @ ''.'')])"
  using assms by (auto simp add: resolve_point_def and_then_def)

lemma verify_point_document: "verify_geojson (point_document location p) = None"
  by (simp add: verify_geojson_def point_document_def)

text \<open>
  Claim C6. When the geocoding lookup answers with a status other than 200, or with an
  empty list of candidates, \<open>create_geojson_from_location\<close> does not raise for it: it
  logs one warning and goes on with the point (0, 0), which is the point written to the
  GeoJSON file. (The file must be writable; the lookup itself must have returned a
  response.)
\<close>

theorem geocoding_fallback:
  assumes "http_get (geocode_url location) = Inr response"
    and "status_code response \<noteq> 200 \<or> json_body response = Inr []"
    and "writable s (path_join output_dir (location @ ''.geojson''))"
  shows "create_geojson_from_location http_get py_float location output_dir s =
     (Inr (path_join output_dir (location @ ''.geojson'')),
      s\<lparr>logged := logged s @
           [(WARNING,
             if status_code response = 200
             then ''Could not find coordinates for '' @ location @
                  ''. Using default coordinates.''
             else ''Geocoding service failed. Using default coordinates for '' @
                  location @ ''.'')],
        files := (files s)(path_join output_dir (location @ ''.geojson'') \<mapsto>
                   \<lparr>features = [\<lparr>prop_name = location,
                     geometry = Some \<lparr>gtype = ''Point'', coordinates = [0, 0]\<rparr>\<rparr>]\<rparr>)\<rparr>)"
  using assms(1,3) resolve_point_fallback [OF assms(2), of py_float location]
  by (simp add: create_geojson_from_location_def and_then_def Let_def verify_point_document)
     (simp add: point_document_def)

theorem geocoding_fallback_witness:
  "fst (create_geojson_from_location no_match_service reject_float ''Bamako'' ''/tmp''
          empty_system) = Inr ''/tmp/Bamako.geojson'' \<and>
   logged (snd (create_geojson_from_location no_match_service reject_float ''Bamako'' ''/tmp''
          empty_system)) =
     [(WARNING, ''Could not find coordinates for Bamako. Using default coordinates.'')] \<and>
   files (snd (create_geojson_from_location no_match_service reject_float ''Bamako'' ''/tmp''
          empty_system)) ''/tmp/Bamako.geojson'' =
     Some \<lparr>features = [\<lparr>prop_name = ''Bamako'',
       geometry = Some \<lparr>gtype = ''Point'', coordinates = [0, 0]\<rparr>\<rparr>]\<rparr> \<and>
   fst (create_geojson_from_location unavailable_service reject_float ''Bamako'' ''/tmp''
          empty_system) = Inr ''/tmp/Bamako.geojson'' \<and>
   logged (snd (create_geojson_from_location unavailable_service reject_float ''Bamako''
          ''/tmp'' empty_system)) =
     [(WARNING, ''Geocoding service failed. Using default coordinates for Bamako.'')] \<and>
   files (snd (create_geojson_from_location unavailable_service reject_float ''Bamako''
          ''/tmp'' empty_system)) ''/tmp/Bamako.geojson'' =
     Some \<lparr>features = [\<lparr>prop_name = ''Bamako'',
       geometry = Some \<lparr>gtype = ''Point'', coordinates = [0, 0]\<rparr>\<rparr>]\<rparr>"
  using geocoding_fallback [of no_match_service "''Bamako''"
      "\<lparr>status_code = 200, json_body = Inr []\<rparr>" empty_system "''/tmp''" reject_float]
    geocoding_fallback [of unavailable_service "''Bamako''"
      "\<lparr>status_code = 503, json_body = Inl JSONDecodeError\<rparr>" empty_system "''/tmp''"
      reject_float]
  by (simp add: no_match_service_def unavailable_service_def empty_system_def path_join_def)

lemma failing_call:
  assumes "\<forall>request. \<exists>e. create request = Inl e"
  shows "and_then (create request) first_choice = Inl (projl (create request))"
proof -
  from assms obtain e where "create request = Inl e" by blast
  then show ?thesis by (simp add: and_then_def)
qed

lemma chat_response_failing_call:
  assumes "\<forall>request. \<exists>e. create request = Inl e"
    and "json_loads context = Some (JObj entries)"
  shows "chat_response json_loads py_str create prompt context chat_history =
         Inr french_fallback"
  using assms(2)
  by (simp add: chat_response_def dict_get_def and_then_def [of "Inr x" for x]
      failing_call [OF assms(1)])



text \<open>
  Claim C10. \<open>chat_response\<close> decodes its context before the guarded call: a context
  that is not JSON makes it raise the decoding error, whatever the chat service would
  answer, and so does the default empty context. The fallback message covers only the
  call of the service.
\<close>

theorem context_parsed_before_guard:
  "(json_loads context = None \<longrightarrow>
      chat_response json_loads py_str create prompt context chat_history =
        Inl JSONDecodeError) \<and>
   (json_loads [] = None \<longrightarrow>
      chat_response_default json_loads py_str create prompt = Inl JSONDecodeError) \<and>
   ((\<forall>request. \<exists>e. create request = Inl e) \<and> json_loads context = Some (JObj entries) \<longrightarrow>
      chat_response json_loads py_str create prompt context chat_history =
        Inr french_fallback)"
  using chat_response_failing_call [of create json_loads "context" entries py_str prompt chat_history]
  by (simp add: chat_response_def chat_response_default_def)

theorem context_parsed_before_guard_witness:
  "chat_response sample_json_loads sample_py_str answering_chat ''Bonjour'' ''not json'' [] =
     Inl JSONDecodeError \<and>
   chat_response_default sample_json_loads sample_py_str answering_chat ''Bonjour'' =
     Inl JSONDecodeError \<and>
   chat_response sample_json_loads sample_py_str answering_chat ''Bonjour'' sample_context [] =
     Inr ''Bonjour''"
  using context_parsed_before_guard [of sample_json_loads "''not json''" sample_py_str
      answering_chat "''Bonjour''" "[]" "[]"]
  by (simp add: sample_json_loads_def sample_context_def chat_response_def dict_get_def
      and_then_def answering_chat_def first_choice_def)

section \<open>Further properties\<close>

lemma unpack_two_four: "unpack_two [a, b, c, d] = Inl ValueError"
  by (simp add: unpack_two_def)

text \<open>
  The pipeline itself never returns a result bundle: \<open>analyze_vegetation_and_water\<close>
  returns four values, and line 48 binds them to two names, which raises \<open>ValueError\<close>
  whenever the dates parse and the extraction succeeds; every other path raises earlier.
\<close>

theorem analyze_incident_zone_raises:
  "\<exists>e. fst (analyze_incident_zone sv lat lon incident_location incident_type
              start_date end_date lg) = Inl e"
  by (auto simp add: analyze_incident_zone_def Let_def and_then_def unpack_two_four
      split: sum.splits prod.splits)

lemma subset_step_values: "H \<subseteq> A \<union> S \<Longrightarrow> A \<subseteq> insert v B \<Longrightarrow> H \<subseteq> B \<union> insert v S"
  by blast

lemma subset_step_names: "H \<subseteq> A \<union> U \<Longrightarrow> A \<subseteq> insert c B \<Longrightarrow> c \<in> U \<Longrightarrow> H \<subseteq> B \<union> U"
  by blast

lemma remap_codes_values:
  assumes "remap_codes sampled acc = Inr h"
  shows "snd ` set h \<subseteq> snd ` set acc \<union> snd ` set sampled \<and>
         fst ` set h \<subseteq> fst ` set acc \<union> insert ''Inconnu'' (snd ` set land_cover_types)"
  using assms
proof (induction sampled arbitrary: acc)
  case Nil
  then show ?case by auto
next
  case (Cons kv sampled)
  obtain k v where kv: "kv = (k, v)" by (cases kv)
  from Cons.prems kv obtain code where c: "py_int k = Inr code"
    and r: "remap_codes sampled (setitem acc (cover_name code) v) = Inr h"
    by (auto simp add: and_then_def split: sum.splits)
  have s1: "snd ` set (setitem acc (cover_name code) v) \<subseteq> insert v (snd ` set acc)"
    by (auto simp add: setitem_def split: if_splits)
  have s2: "fst ` set (setitem acc (cover_name code) v) \<subseteq> insert (cover_name code) (fst ` set acc)"
    by (auto simp add: setitem_def split: if_splits)
  have s3: "cover_name code \<in> insert ''Inconnu'' (snd ` set land_cover_types)"
    by (auto simp add: cover_name_def split: option.splits dest: map_of_SomeD intro: rev_image_eqI)
  from Cons.IH [OF r] have
    a: "snd ` set h \<subseteq> snd ` set (setitem acc (cover_name code) v) \<union> snd ` set sampled"
    and b: "fst ` set h \<subseteq> fst ` set (setitem acc (cover_name code) v) \<union>
              insert ''Inconnu'' (snd ` set land_cover_types)"
    by simp_all
  have "snd ` set h \<subseteq> snd ` set acc \<union> insert v (snd ` set sampled)"
    by (rule subset_step_values [OF a s1])
  moreover have "fst ` set h \<subseteq> fst ` set acc \<union> insert ''Inconnu'' (snd ` set land_cover_types)"
    by (rule subset_step_names [OF b s2 s3])
  ultimately show ?case by (simp add: kv)
qed

lemma remap_codes_distinct:
  assumes "\<forall>kv \<in> set sampled. \<exists>c. py_int (fst kv) = Inr c"
    and "distinct (map code_name sampled)"
    and "code_name ` set sampled \<inter> fst ` set acc = {}"
  shows "remap_codes sampled acc = Inr (acc @ map (\<lambda>kv. (code_name kv, snd kv)) sampled)"
  using assms
proof (induction sampled arbitrary: acc)
  case Nil
  then show ?case by simp
next
  case (Cons kv sampled)
  obtain k v where kv: "kv = (k, v)" by (cases kv)
  from Cons.prems(1) kv obtain c where c: "py_int k = Inr c" by auto
  then have n: "code_name kv = cover_name c" by (simp add: code_name_def kv)
  from Cons.prems(3) n have fresh: "cover_name c \<notin> fst ` set acc" by auto
  then have s: "setitem acc (cover_name c) v = acc @ [(cover_name c, v)]"
    by (simp add: setitem_def)
  have d: "code_name ` set sampled \<inter> fst ` set (acc @ [(cover_name c, v)]) = {}"
    using Cons.prems(2,3) n by auto
  have "remap_codes sampled (acc @ [(cover_name c, v)]) =
        Inr ((acc @ [(cover_name c, v)]) @ map (\<lambda>kv. (code_name kv, snd kv)) sampled)"
    using Cons.prems(1,2) by (intro Cons.IH [OF _ _ d]) simp_all
  then show ?case
    by (simp add: kv c s n [unfolded kv] and_then_def)
qed

text \<open>
  What holds of the land-cover histogram. When every key of the sample is the decimal
  text of a code, each value of the histogram is one of the sampled counts, so a
  non-negative integer when they are, and each key is a name of the table or
  \<open>Inconnu\<close>. When no two sampled codes have the same name, so when at most one of them
  is outside the table, the histogram has one entry per sampled code and its values sum
  to the sampled total.
\<close>

theorem land_cover_counts:
  assumes "sampler buffered_point = Inr sampled"
    and "\<forall>kv \<in> set sampled. \<exists>c. py_int (fst kv) = Inr c"
  shows "(analyze_land_cover sampler buffered_point = Inr h \<longrightarrow>
            snd ` set h \<subseteq> snd ` set sampled \<and>
            fst ` set h \<subseteq> insert ''Inconnu'' (snd ` set land_cover_types)) \<and>
         (distinct (map code_name sampled) \<longrightarrow>
            analyze_land_cover sampler buffered_point =
              Inr (map (\<lambda>kv. (code_name kv, snd kv)) sampled) \<and>
            sum_list (map snd (map (\<lambda>kv. (code_name kv, snd kv)) sampled)) =
              sum_list (map snd sampled))"
proof -
  have a: "analyze_land_cover sampler buffered_point = remap_codes sampled []"
    using assms(1) by (simp add: analyze_land_cover_def and_then_def)
  have b: "sum_list (map snd (map (\<lambda>kv. (code_name kv, snd kv)) sampled)) =
           sum_list (map snd sampled)"
    by (simp add: comp_def)
  show ?thesis
    using remap_codes_values [of sampled "[]" h]
      remap_codes_distinct [OF assms(2), of "[]"]
    unfolding a using b by simp
qed

theorem land_cover_counts_witness:
  "analyze_land_cover (\<lambda>region. Inr [(''10'', 600), (''30'', 390), (''7'', 10)])
     (Buffer (Point (- 8) 12.65) 500) =
   Inr [(''Couverture arbor'' @ e_acute @ ''e'', 600), (''Prairies'', 390), (''Inconnu'', 10)]"
proof -
  have p: "py_int ''10'' = Inr 10" "py_int ''30'' = Inr 30" "py_int ''7'' = Inr 7"
    by (simp_all add: py_int_def)
  show ?thesis
    using land_cover_counts [of "\<lambda>region. Inr [(''10'', 600), (''30'', 390), (''7'', 10)]"
        "Buffer (Point (- 8) 12.65) 500" "[(''10'', 600), (''30'', 390), (''7'', 10)]" "[]"]
    by (simp add: p code_name_def cover_name_def land_cover_types_def)
qed

end
